theory Spec2Isabelle
  imports Complex_Main "HOL-Library.AList"
begin

section \<open>JavaScript values\<close>

text \<open>
  The handlers of the repository work on dynamically typed values: request parameters,
  record-store documents, index-engine requests and responses. They are modelled by one
  datatype. A number stands for a finite double and is carried as a rational (the code only
  passes numbers through and compares them, it does no floating-point arithmetic on them);
  \<open>JNaN\<close> is the value \<open>parseInt\<close> returns on a string with no digits, and the two
  infinities are what it returns on a numeral too long for a double. An object is an
  association list in insertion order, read with \<open>map_of\<close>; its keys are taken to be
  distinct, as those of an object are.
\<close>

datatype jsval =
    JUndefined
  | JNull
  | JBool bool
  | JNum rat
  | JNaN
  | JPosInfinity
  | JNegInfinity
  | JStr string
  | JArr "jsval list"
  | JObj "(string \<times> jsval) list"

type_synonym jsobject = "(string \<times> jsval) list"

text \<open>A thrown \<open>Error\<close>: its message and \<open>error.meta?.statusCode\<close> (absent on a plain Error).\<close>

datatype js_error = JsError (err_message: string) (err_statusCode: "nat option")

definition TypeError :: "string \<Rightarrow> js_error" where
  "TypeError msg = JsError msg None"

fun js_truthy :: "jsval \<Rightarrow> bool" where
  "js_truthy JUndefined = False"
| "js_truthy JNull = False"
| "js_truthy (JBool b) = b"
| "js_truthy (JNum r) = (r \<noteq> 0)"
| "js_truthy JNaN = False"
| "js_truthy JPosInfinity = True"
| "js_truthy JNegInfinity = True"
| "js_truthy (JStr s) = (s \<noteq> [])"
| "js_truthy (JArr xs) = True"
| "js_truthy (JObj kvs) = True"

definition js_or :: "jsval \<Rightarrow> jsval \<Rightarrow> jsval" where
  \<comment> \<open>\<open>a || b\<close>\<close>
  "js_or a b = (if js_truthy a then a else b)"

definition js_and :: "jsval \<Rightarrow> jsval \<Rightarrow> jsval" where
  \<comment> \<open>\<open>a && b\<close>\<close>
  "js_and a b = (if js_truthy a then b else a)"

fun js_nullish :: "jsval \<Rightarrow> bool" where
  "js_nullish JUndefined = True"
| "js_nullish JNull = True"
| "js_nullish v = False"

fun js_prop :: "jsval \<Rightarrow> string \<Rightarrow> jsval" where
  \<comment> \<open>reading a data property of a value that is neither undefined nor null; the names the
      code reads (body, hits, total, value, relation, errors, items, ...) are own
      properties of objects only\<close>
  "js_prop (JObj kvs) k = (case map_of kvs k of None \<Rightarrow> JUndefined | Some v \<Rightarrow> v)"
| "js_prop v k = JUndefined"

definition js_get :: "jsval \<Rightarrow> string \<Rightarrow> js_error + jsval" where
  \<comment> \<open>\<open>v.k\<close>: a TypeError on undefined and null\<close>
  "js_get v k =
     (if js_nullish v then Inl (TypeError (''Cannot read properties of undefined (reading '' @ k @ '')''))
      else Inr (js_prop v k))"

definition js_opt_get :: "jsval \<Rightarrow> string \<Rightarrow> jsval" where
  \<comment> \<open>\<open>v?.k\<close>\<close>
  "js_opt_get v k = (if js_nullish v then JUndefined else js_prop v k)"

fun traverse :: "('a \<Rightarrow> js_error + 'b) \<Rightarrow> 'a list \<Rightarrow> js_error + 'b list" where
  \<comment> \<open>\<open>xs.map(f)\<close> with a callback that may throw: the first throw ends the loop\<close>
  "traverse f [] = Inr []"
| "traverse f (x # xs) =
     (case f x of
        Inl e \<Rightarrow> Inl e
      | Inr y \<Rightarrow> (case traverse f xs of Inl e \<Rightarrow> Inl e | Inr ys \<Rightarrow> Inr (y # ys)))"

subsection \<open>Strings and the built-in functions of the runtime\<close>

text \<open>
  A string is the list of the bytes of its UTF-8 form, so an ASCII character is one byte
  below 128 and every other character is a run of bytes from 128 on. The built-in
  functions the code calls (\<open>toUpperCase\<close>, \<open>toLowerCase\<close>, \<open>trim\<close>, \<open>parseInt\<close>, \<open>isNaN\<close>)
  are computed here on ASCII strings, where they are a matter of a few characters. On
  any other string they follow the tables of Unicode, and \<open>parseInt\<close> rounds an integer
  beyond \<open>2^53\<close> to a double: there the value is the one the runtime gives, and the runtime
  is a parameter of the model. Every property below holds for every runtime.
\<close>

record js_runtime =
  rt_toUpperCase :: "string \<Rightarrow> string"
  rt_toLowerCase :: "string \<Rightarrow> string"
  rt_trim :: "string \<Rightarrow> string"
  rt_parseInt :: "string \<Rightarrow> jsval"
  rt_isNaN :: "string \<Rightarrow> bool"

definition ascii :: "string \<Rightarrow> bool" where
  "ascii s = list_all (\<lambda>c. \<not> digit7 c) s"

definition lower_char :: "char \<Rightarrow> char" where
  "lower_char c =
     (case map_of (zip ''ABCDEFGHIJKLMNOPQRSTUVWXYZ'' ''abcdefghijklmnopqrstuvwxyz'') c of
        None \<Rightarrow> c | Some l \<Rightarrow> l)"

definition upper_char :: "char \<Rightarrow> char" where
  "upper_char c =
     (case map_of (zip ''abcdefghijklmnopqrstuvwxyz'' ''ABCDEFGHIJKLMNOPQRSTUVWXYZ'') c of
        None \<Rightarrow> c | Some u \<Rightarrow> u)"

definition toLowerCase :: "js_runtime \<Rightarrow> string \<Rightarrow> string" where
  "toLowerCase rt s = (if ascii s then map lower_char s else rt_toLowerCase rt s)"

definition toUpperCase :: "js_runtime \<Rightarrow> string \<Rightarrow> string" where
  "toUpperCase rt s = (if ascii s then map upper_char s else rt_toUpperCase rt s)"

definition is_space :: "char \<Rightarrow> bool" where
  \<comment> \<open>the white space and line terminators of ASCII\<close>
  "is_space c = (c \<in> set [CHR 0x09, CHR 0x0A, CHR 0x0B, CHR 0x0C, CHR 0x0D, CHR '' ''])"

definition trim :: "js_runtime \<Rightarrow> string \<Rightarrow> string" where
  "trim rt s =
     (if ascii s then rev (dropWhile is_space (rev (dropWhile is_space s))) else rt_trim rt s)"

fun split_on :: "char \<Rightarrow> string \<Rightarrow> string list" where
  \<comment> \<open>\<open>s.split(c)\<close> for an ASCII separator: no byte of another character equals it\<close>
  "split_on c [] = [[]]"
| "split_on c (x # xs) =
     (if x = c then [] # split_on c xs
      else (case split_on c xs of [] \<Rightarrow> [[x]] | w # ws \<Rightarrow> (x # w) # ws))"

fun join_comma :: "string list \<Rightarrow> string" where
  \<comment> \<open>\<open>String(xs)\<close> of an array of strings: \<open>xs.join(',')\<close>\<close>
  "join_comma [] = []"
| "join_comma [x] = x"
| "join_comma (x # y # ys) = x @ '','' @ join_comma (y # ys)"

definition digit_value :: "char \<Rightarrow> nat option" where
  "digit_value c =
     map_of (zip ''0123456789abcdefABCDEF''
       [0, 1, 2, 3, 4, 5, 6, 7, 8, 9, 10, 11, 12, 13, 14, 15, 10, 11, 12, 13, 14, 15]) c"

definition is_digit_in :: "nat \<Rightarrow> char \<Rightarrow> bool" where
  "is_digit_in radix c = (case digit_value c of None \<Rightarrow> False | Some d \<Rightarrow> d < radix)"

definition digits_value :: "nat \<Rightarrow> string \<Rightarrow> nat" where
  "digits_value radix ds =
     foldl (\<lambda>acc c. acc * radix + (case digit_value c of None \<Rightarrow> 0 | Some d \<Rightarrow> d)) 0 ds"

definition integer_prefix :: "string \<Rightarrow> int option" where
  \<comment> \<open>the integer \<open>parseInt\<close> reads off an ASCII string, with no radix argument: leading
      white space, a sign, a \<open>0x\<close> prefix, then the longest run of digits; \<open>None\<close> when there
      is no digit\<close>
  "integer_prefix s =
     (let s1 = dropWhile is_space s;
          neg = (case s1 of c # r \<Rightarrow> c = CHR ''-'' | [] \<Rightarrow> False);
          s2 = (case s1 of c # r \<Rightarrow> (if c = CHR ''-'' \<or> c = CHR ''+'' then r else s1) | [] \<Rightarrow> s1);
          hex = (case s2 of a # b # r \<Rightarrow> a = CHR ''0'' \<and> (b = CHR ''x'' \<or> b = CHR ''X'') | _ \<Rightarrow> False);
          radix = (if hex then 16 else 10);
          s3 = (if hex then drop 2 s2 else s2);
          ds = takeWhile (is_digit_in radix) s3
      in if ds = [] then None
         else Some (if neg then - int (digits_value radix ds) else int (digits_value radix ds)))"

definition negative_zero :: "string \<Rightarrow> bool" where
  \<comment> \<open>a numeral that \<open>parseInt\<close> reads as the negative zero of the doubles\<close>
  "negative_zero s =
     (integer_prefix s = Some 0 \<and>
      (case dropWhile is_space s of c # r \<Rightarrow> c = CHR ''-'' | [] \<Rightarrow> False))"

definition parseInt :: "js_runtime \<Rightarrow> string \<Rightarrow> jsval" where
  \<comment> \<open>\<open>parseInt(s)\<close>: NaN when an ASCII string has no digit, the integer read when it is a
      double (at most \<open>2^53\<close> in absolute value, and not the negative zero), and what the
      runtime gives otherwise\<close>
  "parseInt rt s =
     (if ascii s
      then (case integer_prefix s of
              None \<Rightarrow> JNaN
            | Some n \<Rightarrow>
                (if \<bar>n\<bar> \<le> 9007199254740992 \<and> \<not> negative_zero s then JNum (of_int n)
                 else rt_parseInt rt s))
      else rt_parseInt rt s)"

fun num_below :: "jsval \<Rightarrow> int \<Rightarrow> bool" where
  \<comment> \<open>\<open>v < n\<close> for a number \<open>v\<close>: false on NaN\<close>
  "num_below (JNum r) n = (r < of_int n)"
| "num_below JNegInfinity n = True"
| "num_below v n = False"

fun num_above :: "jsval \<Rightarrow> int \<Rightarrow> bool" where
  \<comment> \<open>\<open>v > n\<close> for a number \<open>v\<close>: false on NaN\<close>
  "num_above (JNum r) n = (of_int n < r)"
| "num_above JPosInfinity n = True"
| "num_above v n = False"

definition exponent_part_opt :: "string \<Rightarrow> bool" where
  \<comment> \<open>an optional ExponentPart: \<open>e\<close> or \<open>E\<close>, an optional sign, one digit or more\<close>
  "exponent_part_opt s =
     (case s of
        [] \<Rightarrow> True
      | c # r \<Rightarrow>
          (c = CHR ''e'' \<or> c = CHR ''E'') \<and>
          (let r' = (case r of d # t \<Rightarrow> (if d = CHR ''+'' \<or> d = CHR ''-'' then t else r) | [] \<Rightarrow> r)
           in r' \<noteq> [] \<and> list_all (is_digit_in 10) r'))"

definition unsigned_decimal_literal :: "string \<Rightarrow> bool" where
  "unsigned_decimal_literal s =
     (s = ''Infinity'' \<or>
      (let ip = takeWhile (is_digit_in 10) s; r = dropWhile (is_digit_in 10) s
       in case r of
            [] \<Rightarrow> ip \<noteq> []
          | c # r2 \<Rightarrow>
              if c = CHR ''.''
              then (let fp = takeWhile (is_digit_in 10) r2; r3 = dropWhile (is_digit_in 10) r2
                    in (ip \<noteq> [] \<or> fp \<noteq> []) \<and> exponent_part_opt r3)
              else ip \<noteq> [] \<and> exponent_part_opt r))"

definition non_decimal_integer_literal :: "string \<Rightarrow> bool" where
  "non_decimal_integer_literal s =
     (case s of
        a # b # ds \<Rightarrow>
          a = CHR ''0'' \<and> ds \<noteq> [] \<and>
          ((b = CHR ''x'' \<or> b = CHR ''X'') \<and> list_all (is_digit_in 16) ds \<or>
           (b = CHR ''o'' \<or> b = CHR ''O'') \<and> list_all (is_digit_in 8) ds \<or>
           (b = CHR ''b'' \<or> b = CHR ''B'') \<and> list_all (is_digit_in 2) ds)
      | _ \<Rightarrow> False)"

definition isNaN :: "js_runtime \<Rightarrow> string \<Rightarrow> bool" where
  \<comment> \<open>\<open>isNaN(s)\<close> on a string: whether \<open>Number(s)\<close> is NaN, that is, for an ASCII string,
      whether the trimmed string is neither empty nor a numeric literal\<close>
  "isNaN rt s =
     (if ascii s
      then (let t = rev (dropWhile is_space (rev (dropWhile is_space s)));
                u = (case t of c # r \<Rightarrow> (if c = CHR ''+'' \<or> c = CHR ''-'' then r else t) | [] \<Rightarrow> t)
            in \<not> (t = [] \<or> unsigned_decimal_literal u \<or> non_decimal_integer_literal t))
      else rt_isNaN rt s)"

subsection \<open>Requests, responses, environment\<close>

text \<open>
  \<open>req.query\<close> is a dictionary from names to values: a string, or, for a parameter given
  more than once, the array of its strings. \<open>process.env\<close> is a dictionary from names to
  strings. A destructuring default (\<open>size = 10\<close>) applies when the key is absent.
\<close>

datatype qvalue = QStr string | QArr "string list"

type_synonym req_query = "string \<rightharpoonup> qvalue"
type_synonym env = "string \<rightharpoonup> string"

record http_response =
  status :: nat
  body :: jsval

definition res_json :: "jsval \<Rightarrow> http_response" where
  \<comment> \<open>\<open>res.json(b)\<close>\<close>
  "res_json b = \<lparr>status = 200, body = b\<rparr>"

definition res_status_json :: "nat \<Rightarrow> jsval \<Rightarrow> http_response" where
  \<comment> \<open>\<open>res.status(n).json(b)\<close>\<close>
  "res_status_json n b = \<lparr>status = n, body = b\<rparr>"

fun qvalue_js :: "qvalue \<Rightarrow> jsval" where
  "qvalue_js (QStr s) = JStr s"
| "qvalue_js (QArr xs) = JArr (map JStr xs)"

fun qvalue_string :: "qvalue \<Rightarrow> string" where
  \<comment> \<open>\<open>String(v)\<close>, as a template literal, \<open>parseInt\<close> and \<open>isNaN\<close> take it\<close>
  "qvalue_string (QStr s) = s"
| "qvalue_string (QArr xs) = join_comma xs"

definition string_method :: "string \<Rightarrow> qvalue \<Rightarrow> js_error + string" where
  \<comment> \<open>the receiver of a string method (\<open>v.trim()\<close>, \<open>v.split(',')\<close>): an array has none\<close>
  "string_method name v =
     (case v of
        QStr s \<Rightarrow> Inr s
      | QArr xs \<Rightarrow> Inl (TypeError (name @ '' is not a function'')))"

definition given :: "req_query \<Rightarrow> string \<Rightarrow> bool" where
  \<comment> \<open>\<open>if (param)\<close>: present and not the empty string (an array is truthy)\<close>
  "given query k = (case query k of None \<Rightarrow> False | Some v \<Rightarrow> v \<noteq> QStr [])"

definition param_default :: "req_query \<Rightarrow> string \<Rightarrow> jsval \<Rightarrow> jsval" where
  \<comment> \<open>a destructured parameter with a default: the value given, or the default\<close>
  "param_default query k d = (case query k of None \<Rightarrow> d | Some v \<Rightarrow> qvalue_js v)"

definition sort_param :: "req_query \<Rightarrow> string \<Rightarrow> string \<Rightarrow> string" where
  \<comment> \<open>\<open>sortBy\<close> and \<open>sortOrder\<close> as \<open>buildSortConfig\<close> takes them. The defaults, \<open>_score\<close> and
      \<open>desc\<close>, are what \<open>buildSortConfig\<close> falls back to; an array is in neither of its
      lists (\<open>includes\<close> compares by identity), so it is sorted by as the default is\<close>
  "sort_param query k d = (case query k of None \<Rightarrow> d | Some (QStr s) \<Rightarrow> s | Some (QArr xs) \<Rightarrow> d)"

definition env_or :: "env \<Rightarrow> string \<Rightarrow> string \<Rightarrow> string" where
  \<comment> \<open>\<open>process.env.K || d\<close>\<close>
  "env_or ev k d = (case ev k of None \<Rightarrow> d | Some s \<Rightarrow> (if s = [] then d else s))"

definition indexName :: "env \<Rightarrow> string" where
  "indexName ev = env_or ev ''ELASTICSEARCH_INDEX'' ''subnet_search''"

definition parseInt_param :: "js_runtime \<Rightarrow> req_query \<Rightarrow> string \<Rightarrow> int \<Rightarrow> jsval" where
  \<comment> \<open>\<open>parseInt(size)\<close> after \<open>size = 10\<close>: \<open>parseInt\<close> of the integer default is the default\<close>
  "parseInt_param rt query k d =
     (case query k of None \<Rightarrow> JNum (of_int d) | Some v \<Rightarrow> parseInt rt (qvalue_string v))"

section \<open>src/controllers/searchController.js\<close>

text \<open>
  The index client of the search controller: \<open>esClient.search(request)\<close> resolves to a
  response or rejects with an error. \<open>getClient()\<close> throws when no client is connected.
\<close>

type_synonym search_client = "jsval \<Rightarrow> js_error + jsval"

definition getClient :: "'c option \<Rightarrow> js_error + 'c" where
  "getClient c =
     (case c of
        None \<Rightarrow> Inl (JsError ''Elasticsearch not connected. Call connectElasticsearch() first.'' None)
      | Some cl \<Rightarrow> Inr cl)"

definition boosted :: "string \<Rightarrow> string \<Rightarrow> string \<Rightarrow> jsval \<Rightarrow> rat \<Rightarrow> jsval" where
  \<comment> \<open>\<open>{ kind: { field: { key: v, boost: b } } }\<close>\<close>
  "boosted kind fld key v b = JObj [(kind, JObj [(fld, JObj [(key, v), (''boost'', JNum b)])])]"

definition bool_should :: "jsval list \<Rightarrow> jsval" where
  "bool_should cs = JObj [(''bool'', JObj [(''should'', JArr cs)])]"

definition buildMultiFieldQuery :: "js_runtime \<Rightarrow> qvalue \<Rightarrow> jsval \<Rightarrow> jsval \<Rightarrow> js_error + jsval" where
  \<comment> \<open>\<open>q.toLowerCase()\<close> is a TypeError when \<open>q\<close> is an array\<close>
  "buildMultiFieldQuery rt q fuzzy fuzziness =
     (case string_method ''q.toLowerCase'' q of
        Inl e \<Rightarrow> Inl e
      | Inr s \<Rightarrow>
     (let contains = JStr (''*'' @ toLowerCase rt s @ ''*''); lq = JStr (toLowerCase rt s) in
      Inr (JObj [(''bool'', JObj [
        (''should'', JArr [
           bool_should [
             boosted ''term'' ''CLUSTERID'' ''value'' (JStr s) 3,
             boosted ''term'' ''SITE'' ''value'' (JStr s) 3,
             boosted ''term'' ''USERNAME'' ''value'' (JStr s) 2],
           bool_should [
             boosted ''wildcard'' ''CLUSTERID'' ''value'' contains (5 / 2),
             boosted ''wildcard'' ''SITE'' ''value'' contains (5 / 2),
             boosted ''wildcard'' ''USERNAME'' ''value'' contains (3 / 2),
             boosted ''wildcard'' ''VALUE'' ''value'' contains 2],
           JObj [(''match'', JObj [(''VALUE'', JObj [
             (''query'', JStr s),
             (''fuzziness'', if js_truthy fuzzy then fuzziness else JNum 0),
             (''boost'', JNum 2)])])],
           bool_should [
             boosted ''match'' ''CLUSTERID.autocomplete'' ''query'' (JStr s) 2,
             boosted ''match'' ''SITE.autocomplete'' ''query'' (JStr s) 2],
           bool_should [
             boosted ''prefix'' ''CLUSTERID'' ''value'' lq (3 / 2),
             boosted ''prefix'' ''SITE'' ''value'' lq (3 / 2),
             boosted ''prefix'' ''USERNAME'' ''value'' lq 1]]),
        (''minimum_should_match'', JNum 1)])])))"

definition fieldMapping :: "(string \<times> string) list" where
  "fieldMapping =
     [(''CLUSTERID'', ''keyword''), (''SITE'', ''keyword''), (''VALUE'', ''text''),
      (''USERNAME'', ''keyword''), (''CIDR'', ''keyword''), (''CIDRIPV4'', ''keyword'')]"

definition buildFieldSpecificQuery :: "js_runtime \<Rightarrow> qvalue \<Rightarrow> qvalue \<Rightarrow> jsval \<Rightarrow> jsval \<Rightarrow> js_error + jsval" where
  \<comment> \<open>\<open>field.toUpperCase()\<close>, and in the keyword branch \<open>q.toLowerCase()\<close>, are TypeErrors on
      an array\<close>
  "buildFieldSpecificQuery rt q field fuzzy fuzziness =
     (case string_method ''field.toUpperCase'' field of
        Inl e \<Rightarrow> Inl e
      | Inr f \<Rightarrow>
     (case map_of fieldMapping (toUpperCase rt f) of
        None \<Rightarrow> Inl (JsError (''Invalid field: '' @ f) None)
      | Some fieldType \<Rightarrow>
          if fieldType = ''keyword''
          then (case string_method ''q.toLowerCase'' q of
                  Inl e \<Rightarrow> Inl e
                | Inr s \<Rightarrow>
                    Inr (JObj [(''bool'', JObj [
                      (''should'', JArr [
                         boosted ''term'' f ''value'' (JStr s) 3,
                         boosted ''wildcard'' f ''value'' (JStr (''*'' @ toLowerCase rt s @ ''*'')) 2,
                         boosted ''prefix'' f ''value'' (JStr (toLowerCase rt s)) (3 / 2)]),
                      (''minimum_should_match'', JNum 1)])]))
          else Inr (JObj [(''match'', JObj [(f, JObj [
                 (''query'', qvalue_js q),
                 (''fuzziness'', if js_truthy fuzzy then fuzziness else JNum 0)])])])))"

definition validSortFields :: "string list" where
  "validSortFields = [''_score'', ''TIMESTAMP'', ''CLUSTERID'', ''SITE'', ''USERNAME'']"

definition sort_key :: "string \<Rightarrow> string \<Rightarrow> jsval" where
  \<comment> \<open>\<open>{ [field]: { order: order } }\<close>\<close>
  "sort_key field ord = JObj [(field, JObj [(''order'', JStr ord)])]"

definition buildSortConfig :: "string \<Rightarrow> string \<Rightarrow> jsval list" where
  \<comment> \<open>\<open>sortBy\<close> and \<open>sortOrder\<close> are request parameters (strings) or their string defaults\<close>
  "buildSortConfig sortBy sortOrder =
     (let field = (if sortBy \<in> set validSortFields then sortBy else ''_score'');
          ord = (if sortOrder \<in> set [''asc'', ''desc''] then sortOrder else ''desc'')
      in if field = ''_score'' then [sort_key ''_score'' ord]
         else [sort_key field ord, sort_key ''_score'' ''desc''])"

subsection \<open>Response formatting (the end of \<open>search\<close> and of \<open>advancedSearch\<close>)\<close>

definition defaultHits :: jsval where
  \<comment> \<open>\<open>{ total: { value: 0 }, hits: [] }\<close>\<close>
  "defaultHits = JObj [(''total'', JObj [(''value'', JNum 0)]), (''hits'', JArr [])]"

definition responseHits :: "jsval \<Rightarrow> js_error + jsval" where
  \<comment> \<open>\<open>response.body?.hits || response.hits || { total: { value: 0 }, hits: [] }\<close>\<close>
  "responseHits response =
     (case js_get response ''body'' of
        Inl e \<Rightarrow> Inl e
      | Inr b \<Rightarrow> Inr (js_or (js_or (js_opt_get b ''hits'') (js_prop response ''hits'')) defaultHits))"

definition totalValue :: "jsval \<Rightarrow> jsval" where
  \<comment> \<open>\<open>hits.total?.value || hits.total || 0\<close>\<close>
  "totalValue hits =
     js_or (js_or (js_opt_get (js_prop hits ''total'') ''value'') (js_prop hits ''total'')) (JNum 0)"

definition totalRelation :: "jsval \<Rightarrow> jsval" where
  \<comment> \<open>\<open>hits.total?.relation || "eq"\<close>\<close>
  "totalRelation hits = js_or (js_opt_get (js_prop hits ''total'') ''relation'') (JStr ''eq'')"

definition mapHits :: "(jsval \<Rightarrow> js_error + jsval) \<Rightarrow> jsval \<Rightarrow> js_error + jsval" where
  \<comment> \<open>\<open>hits.hits?.map(f) || []\<close>: calling \<open>map\<close> on a value that has none is a TypeError\<close>
  "mapHits f hits =
     (case js_prop hits ''hits'' of
        JUndefined \<Rightarrow> Inr (JArr [])
      | JNull \<Rightarrow> Inr (JArr [])
      | JArr xs \<Rightarrow> (case traverse f xs of Inl e \<Rightarrow> Inl e | Inr ys \<Rightarrow> Inr (JArr ys))
      | _ \<Rightarrow> Inl (TypeError ''hits.hits?.map is not a function''))"

definition searchHit :: "jsval \<Rightarrow> js_error + jsval" where
  "searchHit hit =
     (if js_nullish hit then js_get hit ''_id''
      else Inr (JObj [
        (''id'', js_prop hit ''_id''),
        (''score'', js_prop hit ''_score''),
        (''source'', js_prop hit ''_source''),
        (''highlight'', js_or (js_prop hit ''highlight'') (JObj []))]))"

definition advancedHit :: "jsval \<Rightarrow> js_error + jsval" where
  "advancedHit hit =
     (if js_nullish hit then js_get hit ''_id''
      else Inr (JObj [
        (''id'', js_prop hit ''_id''),
        (''score'', js_prop hit ''_score''),
        (''source'', js_prop hit ''_source'')]))"

definition formatSearchResponse :: "jsval \<Rightarrow> js_error + http_response" where
  \<comment> \<open>lines 212 to 223 of \<open>search\<close>\<close>
  "formatSearchResponse response =
     (case responseHits response of
        Inl e \<Rightarrow> Inl e
      | Inr hits \<Rightarrow>
          (case mapHits searchHit hits of
             Inl e \<Rightarrow> Inl e
           | Inr hs \<Rightarrow> Inr (res_json (JObj [
               (''total'', JObj [(''value'', totalValue hits), (''relation'', totalRelation hits)]),
               (''hits'', hs)]))))"

definition formatAdvancedResponse :: "jsval \<Rightarrow> js_error + http_response" where
  \<comment> \<open>lines 397 to 408 of \<open>advancedSearch\<close>\<close>
  "formatAdvancedResponse response =
     (case responseHits response of
        Inl e \<Rightarrow> Inl e
      | Inr hits \<Rightarrow>
          (case mapHits advancedHit hits of
             Inl e \<Rightarrow> Inl e
           | Inr hs \<Rightarrow> Inr (res_json (JObj [
               (''total'', JObj [(''value'', totalValue hits), (''relation'', totalRelation hits)]),
               (''hits'', hs),
               (''aggregations'',
                  js_or (js_or (js_opt_get (js_prop response ''body'') ''aggregations'')
                               (js_prop response ''aggregations'')) (JObj []))]))))"

subsection \<open>\<open>search\<close>\<close>

text \<open>
  A handler returns the HTTP response it sends together with the list of requests it
  issued to the index engine, in order.
\<close>

definition highlightConfig :: jsval where
  "highlightConfig =
     JObj [
       (''fields'', JObj [
          (''CLUSTERID'', JObj [(''type'', JStr ''unified'')]),
          (''SITE'', JObj [(''type'', JStr ''unified'')]),
          (''VALUE'', JObj [(''type'', JStr ''unified'')]),
          (''USERNAME'', JObj [(''type'', JStr ''unified'')]),
          (''CLUSTERID.autocomplete'', JObj [(''type'', JStr ''unified'')]),
          (''SITE.autocomplete'', JObj [(''type'', JStr ''unified'')])]),
       (''pre_tags'', JArr [JStr ''<mark>'']),
       (''post_tags'', JArr [JStr ''</mark>''])]"

definition searchQuery :: "js_runtime \<Rightarrow> req_query \<Rightarrow> qvalue \<Rightarrow> js_error + jsval" where
  \<comment> \<open>lines 174 to 185: the wildcard shortcut, the field-scoped query, the multi-field query\<close>
  "searchQuery rt query q =
     (let fuzzy = param_default query ''fuzzy'' (JBool False);
          fuzziness = param_default query ''fuzziness'' (JStr ''AUTO'')
      in if q = QStr ''*'' then Inr (JObj [(''match_all'', JObj [])])
         else (case query ''field'' of
                 None \<Rightarrow> buildMultiFieldQuery rt q fuzzy fuzziness
               | Some field \<Rightarrow>
                   if field \<noteq> QStr [] then buildFieldSpecificQuery rt q field fuzzy fuzziness
                   else buildMultiFieldQuery rt q fuzzy fuzziness))"

definition searchRequest :: "js_runtime \<Rightarrow> env \<Rightarrow> req_query \<Rightarrow> jsval \<Rightarrow> jsval" where
  \<comment> \<open>the argument of \<open>esClient.search\<close>, lines 190 to 210\<close>
  "searchRequest rt ev query qry =
     JObj [
       (''index'', JStr (indexName ev)),
       (''body'', JObj [
          (''query'', qry),
          (''size'', parseInt_param rt query ''size'' 10),
          (''from'', parseInt_param rt query ''from'' 0),
          (''sort'', JArr (buildSortConfig (sort_param query ''sortBy'' ''_score'')
                                           (sort_param query ''sortOrder'' ''desc''))),
          (''highlight'', highlightConfig)])]"

definition search_try :: "js_runtime \<Rightarrow> env \<Rightarrow> search_client option \<Rightarrow> req_query \<Rightarrow> qvalue \<Rightarrow> (js_error + http_response) \<times> jsval list" where
  \<comment> \<open>the \<open>try\<close> block of \<open>search\<close> after the check of \<open>q\<close>\<close>
  "search_try rt ev client query q =
     (case getClient client of
        Inl e \<Rightarrow> (Inl e, [])
      | Inr esClient \<Rightarrow>
          (case searchQuery rt query q of
             Inl e \<Rightarrow> (Inl e, [])
           | Inr qry \<Rightarrow>
               (let request = searchRequest rt ev query qry in
                case esClient request of
                  Inl e \<Rightarrow> (Inl e, [request])
                | Inr response \<Rightarrow> (formatSearchResponse response, [request]))))"

definition search_catch :: "env \<Rightarrow> js_error \<Rightarrow> http_response" where
  \<comment> \<open>the \<open>catch\<close> block of \<open>search\<close>, lines 225 to 239\<close>
  "search_catch ev error =
     (if err_statusCode error = Some 404
      then res_status_json 404 (JObj [
             (''error'', JStr ''Search index not found''),
             (''message'', JStr ''Please run bulk sync first to create the index'')])
      else res_status_json 500 (JObj [
             (''error'', JStr ''Search failed''),
             (''message'', JStr (if ev ''NODE_ENV'' = Some ''development'' then err_message error
                                 else ''Internal server error''))]))"

definition search :: "js_runtime \<Rightarrow> env \<Rightarrow> search_client option \<Rightarrow> req_query \<Rightarrow> http_response \<times> jsval list" where
  \<open>search rt ev client query =
     (case query ''q'' of
        None \<Rightarrow> (res_status_json 400 (JObj [(''error'', JStr ''Query parameter "q" is required'')]), [])
      | Some q \<Rightarrow>
          if q = QStr [] then (res_status_json 400 (JObj [(''error'', JStr ''Query parameter "q" is required'')]), [])
          else (case search_try rt ev client query q of
                  (Inl error, issued) \<Rightarrow> (search_catch ev error, issued)
                | (Inr res, issued) \<Rightarrow> (res, issued)))\<close>

subsection \<open>\<open>advancedSearch\<close>\<close>

definition termsFilter :: "js_runtime \<Rightarrow> req_query \<Rightarrow> string \<Rightarrow> string \<Rightarrow> js_error + jsval list" where
  \<comment> \<open>\<open>if (list) query.bool.filter.push({ terms: { FIELD: list.split(',').map(s => s.trim()) } })\<close>:
      the filters to push, or the TypeError of \<open>split\<close> on an array\<close>
  "termsFilter rt query k fld =
     (case query k of
        None \<Rightarrow> Inr []
      | Some v \<Rightarrow>
          if v = QStr [] then Inr []
          else (case string_method (k @ ''.split'') v of
                  Inl e \<Rightarrow> Inl e
                | Inr s \<Rightarrow>
                    Inr [JObj [(''terms'', JObj [(fld,
                           JArr (map (\<lambda>x. JStr (trim rt x)) (split_on CHR '','' s)))])]]))"

definition textClause :: "js_runtime \<Rightarrow> req_query \<Rightarrow> js_error + jsval list" where
  \<comment> \<open>\<open>if (q) query.bool.must.push(await buildMultiFieldQuery(q, false, 'AUTO'))\<close>\<close>
  "textClause rt query =
     (case query ''q'' of
        None \<Rightarrow> Inr []
      | Some q \<Rightarrow>
          if q = QStr [] then Inr []
          else (case buildMultiFieldQuery rt q (JBool False) (JStr ''AUTO'') of
                  Inl e \<Rightarrow> Inl e
                | Inr m \<Rightarrow> Inr [m]))"

definition dateFilter :: "req_query \<Rightarrow> jsval list" where
  \<comment> \<open>lines 359 to 367\<close>
  "dateFilter query =
     (if given query ''dateFrom'' \<or> given query ''dateTo''
      then [JObj [(''range'', JObj [(''TIMESTAMP'', JObj (
              (if given query ''dateFrom'' then [(''gte'', qvalue_js (the (query ''dateFrom'')))] else []) @
              (if given query ''dateTo'' then [(''lte'', qvalue_js (the (query ''dateTo'')))] else [])))])]]
      else [])"

definition advancedQuery :: "js_runtime \<Rightarrow> req_query \<Rightarrow> js_error + jsval" where
  \<comment> \<open>lines 332 to 372, in the order of the source: the first TypeError ends the handler\<close>
  "advancedQuery rt query =
     (case textClause rt query of
        Inl e \<Rightarrow> Inl e
      | Inr must \<Rightarrow>
     (case termsFilter rt query ''sites'' ''SITE'' of
        Inl e \<Rightarrow> Inl e
      | Inr fs \<Rightarrow>
     (case termsFilter rt query ''clusters'' ''CLUSTERID'' of
        Inl e \<Rightarrow> Inl e
      | Inr fc \<Rightarrow>
     (case termsFilter rt query ''usernames'' ''USERNAME'' of
        Inl e \<Rightarrow> Inl e
      | Inr fu \<Rightarrow>
          (let filter = fs @ fc @ fu @ dateFilter query
           in if must = [] \<and> filter = [] then Inr (JObj [(''match_all'', JObj [])])
              else Inr (JObj [(''bool'', JObj [(''must'', JArr must), (''filter'', JArr filter)])]))))))"

definition aggsConfig :: jsval where
  "aggsConfig =
     JObj [
       (''sites'', JObj [(''terms'', JObj [(''field'', JStr ''SITE''), (''size'', JNum 10)])]),
       (''clusters'', JObj [(''terms'', JObj [(''field'', JStr ''CLUSTERID''), (''size'', JNum 10)])]),
       (''users'', JObj [(''terms'', JObj [(''field'', JStr ''USERNAME''), (''size'', JNum 10)])])]"

definition advancedRequest :: "js_runtime \<Rightarrow> env \<Rightarrow> req_query \<Rightarrow> jsval \<Rightarrow> jsval" where
  \<comment> \<open>the argument of \<open>esClient.search\<close>, lines 376 to 395\<close>
  "advancedRequest rt ev query qry =
     JObj [
       (''index'', JStr (indexName ev)),
       (''body'', JObj [
          (''query'', qry),
          (''size'', parseInt_param rt query ''size'' 10),
          (''from'', parseInt_param rt query ''from'' 0),
          (''sort'', JArr (buildSortConfig (sort_param query ''sortBy'' ''_score'')
                                           (sort_param query ''sortOrder'' ''desc''))),
          (''aggs'', aggsConfig)])]"

definition advanced_try :: "js_runtime \<Rightarrow> env \<Rightarrow> search_client option \<Rightarrow> req_query \<Rightarrow> (js_error + http_response) \<times> jsval list" where
  "advanced_try rt ev client query =
     (case getClient client of
        Inl e \<Rightarrow> (Inl e, [])
      | Inr esClient \<Rightarrow>
          (case advancedQuery rt query of
             Inl e \<Rightarrow> (Inl e, [])
           | Inr qry \<Rightarrow>
               (let request = advancedRequest rt ev query qry in
                case esClient request of
                  Inl e \<Rightarrow> (Inl e, [request])
                | Inr response \<Rightarrow> (formatAdvancedResponse response, [request]))))"

definition advancedSearch :: "js_runtime \<Rightarrow> env \<Rightarrow> search_client option \<Rightarrow> req_query \<Rightarrow> http_response \<times> jsval list" where
  "advancedSearch rt ev client query =
     (case advanced_try rt ev client query of
        (Inl error, issued) \<Rightarrow>
          (res_status_json 500 (JObj [
             (''error'', JStr ''Advanced search failed''),
             (''message'', JStr (err_message error))]), issued)
      | (Inr res, issued) \<Rightarrow> (res, issued))"

section \<open>The validation middleware (src/unnamed/part_000), the error middleware of the application and src/routes/searchRoutes.js\<close>

definition bad_request :: "string \<Rightarrow> http_response" where
  "bad_request msg = res_status_json 400 (JObj [(''error'', JStr msg)])"

definition out_of_range :: "js_runtime \<Rightarrow> req_query \<Rightarrow> string \<Rightarrow> bool \<Rightarrow> bool" where
  \<comment> \<open>\<open>v && (isNaN(v) || parseInt(v) < 1 || parseInt(v) > 100)\<close> for \<open>size\<close>, and
      \<open>v && (isNaN(v) || parseInt(v) < 0)\<close> for \<open>from\<close>\<close>
  "out_of_range rt query k is_size =
     (case query k of
        None \<Rightarrow> False
      | Some v \<Rightarrow>
          v \<noteq> QStr [] \<and>
          (isNaN rt (qvalue_string v) \<or>
           (if is_size
            then num_below (parseInt rt (qvalue_string v)) 1 \<or> num_above (parseInt rt (qvalue_string v)) 100
            else num_below (parseInt rt (qvalue_string v)) 0)))"

definition bad_fuzzy :: "js_runtime \<Rightarrow> req_query \<Rightarrow> js_error + bool" where
  \<comment> \<open>\<open>fuzzy && !['true', 'false'].includes(fuzzy.toLowerCase())\<close>\<close>
  "bad_fuzzy rt query =
     (case query ''fuzzy'' of
        None \<Rightarrow> Inr False
      | Some v \<Rightarrow>
          if v = QStr [] then Inr False
          else (case string_method ''fuzzy.toLowerCase'' v of
                  Inl e \<Rightarrow> Inl e
                | Inr f \<Rightarrow> Inr (toLowerCase rt f \<notin> set [''true'', ''false''])))"

definition bad_fuzziness :: "req_query \<Rightarrow> bool" where
  \<comment> \<open>\<open>fuzziness && !['AUTO', '0', '1', '2'].includes(fuzziness)\<close>\<close>
  "bad_fuzziness query =
     (case query ''fuzziness'' of
        None \<Rightarrow> False
      | Some (QStr s) \<Rightarrow> s \<noteq> [] \<and> s \<notin> set [''AUTO'', ''0'', ''1'', ''2'']
      | Some (QArr xs) \<Rightarrow> True)"

definition validateSearch :: "js_runtime \<Rightarrow> req_query \<Rightarrow> js_error + http_response option" where
  \<comment> \<open>\<open>Inr (Some r)\<close>: the middleware answers \<open>r\<close>; \<open>Inr None\<close>: it calls \<open>next()\<close>; \<open>Inl e\<close>: it
      throws (a string method called on an array)\<close>
  \<open>validateSearch rt query =
     (case query ''q'' of
        None \<Rightarrow> Inr (Some (bad_request ''Query parameter "q" is required and cannot be empty''))
      | Some q \<Rightarrow>
          if q = QStr [] then Inr (Some (bad_request ''Query parameter "q" is required and cannot be empty''))
          else
     (case string_method ''q.trim'' q of
        Inl e \<Rightarrow> Inl e
      | Inr s \<Rightarrow>
          if trim rt s = [] then Inr (Some (bad_request ''Query parameter "q" is required and cannot be empty''))
          else if out_of_range rt query ''size'' True
          then Inr (Some (bad_request ''Size must be a number between 1 and 100''))
          else if out_of_range rt query ''from'' False
          then Inr (Some (bad_request ''From must be a non-negative number''))
          else
     (case bad_fuzzy rt query of
        Inl e \<Rightarrow> Inl e
      | Inr bad \<Rightarrow>
          if bad
          then Inr (Some (bad_request ''Fuzzy must be true or false''))
          else if bad_fuzziness query
          then Inr (Some (bad_request ''Fuzziness must be AUTO, 0, 1, or 2''))
          else Inr None)))\<close>

definition errorMiddleware :: "env \<Rightarrow> js_error \<Rightarrow> http_response" where
  \<comment> \<open>\<open>app.use((err, req, res, next) => ...)\<close> of the application: the answer to an error
      thrown by a middleware\<close>
  "errorMiddleware ev err =
     res_status_json 500 (JObj [
       (''error'', JStr ''Internal server error''),
       (''message'', JStr (if ev ''NODE_ENV'' = Some ''development'' then err_message err
                           else ''Something went wrong''))])"

definition route_search :: "js_runtime \<Rightarrow> env \<Rightarrow> search_client option \<Rightarrow> req_query \<Rightarrow> http_response \<times> jsval list" where
  \<comment> \<open>\<open>router.get('/', validateSearch, searchController.search)\<close>\<close>
  "route_search rt ev client query =
     (case validateSearch rt query of
        Inl e \<Rightarrow> (errorMiddleware ev e, [])
      | Inr (Some r) \<Rightarrow> (r, [])
      | Inr None \<Rightarrow> search rt ev client query)"

definition route_advanced :: "js_runtime \<Rightarrow> env \<Rightarrow> search_client option \<Rightarrow> req_query \<Rightarrow> http_response \<times> jsval list" where
  \<comment> \<open>\<open>router.get('/advanced', searchController.advancedSearch)\<close>: no middleware\<close>
  "route_advanced rt ev client query = advancedSearch rt ev client query"

section \<open>scripts/batch-operations.js\<close>

definition transformForElasticsearch :: "jsobject \<Rightarrow> jsobject" where
  \<comment> \<open>\<open>{ ...doc, suggest: { input: suggest, contexts: { category: [...] } } }\<close>\<close>
  "transformForElasticsearch doc =
     (let suggest =
            (if js_truthy (js_prop (JObj doc) ''CLUSTERID'') then [js_prop (JObj doc) ''CLUSTERID''] else []) @
            (if js_truthy (js_prop (JObj doc) ''SITE'') then [js_prop (JObj doc) ''SITE''] else []) @
            (if js_truthy (js_prop (JObj doc) ''DESCRIPTION'') then [js_prop (JObj doc) ''DESCRIPTION''] else [])
      in AList.update ''suggest''
           (JObj [(''input'', JArr suggest),
                  (''contexts'', JObj [(''category'', JArr [JStr ''subnet'', JStr ''network''])])])
           doc)"

section \<open>The record store and the index engine, as the sync code uses them\<close>

text \<open>
  \<open>getCollection()\<close> gives the collection handle or throws when the store is not connected.
  The handle answers \<open>find({}).toArray()\<close> and \<open>countDocuments()\<close>, each of which may reject.
\<close>

record collection =
  find_all :: "js_error + jsobject list"
  countDocuments :: "js_error + nat"

definition getCollection :: "collection option \<Rightarrow> js_error + collection" where
  "getCollection c =
     (case c of
        None \<Rightarrow> Inl (JsError ''MongoDB not connected. Call connectMongoDB() first.'' None)
      | Some coll \<Rightarrow> Inr coll)"

text \<open>
  The index client on the write side. Every call takes the request object the code builds
  and the state of the engine; it rejects with an error, leaving the engine as it was, or
  resolves. The count response carries the count as a natural number, at top level or under
  \<open>body\<close> according to the version of the client library.
\<close>

record count_response =
  body_count :: "nat option"
  top_count :: "nat option"

record 's index_client =
  es_bulk :: "jsval \<Rightarrow> 's \<Rightarrow> js_error + (jsval \<times> 's)"
  es_count :: "jsval \<Rightarrow> 's \<Rightarrow> js_error + count_response"
  es_index :: "jsval \<Rightarrow> 's \<Rightarrow> js_error + 's"
  es_update :: "jsval \<Rightarrow> 's \<Rightarrow> js_error + 's"
  es_delete :: "jsval \<Rightarrow> 's \<Rightarrow> js_error + 's"

text \<open>
  \<open>idstr\<close> is the \<open>toString\<close> method of the identifier values of the record store that are
  not strings (for an ObjectId its hexadecimal form); a string is its own \<open>toString\<close>.
\<close>

definition toString_id :: "(jsval \<Rightarrow> string) \<Rightarrow> jsval \<Rightarrow> string" where
  "toString_id idstr v = (case v of JStr s \<Rightarrow> s | _ \<Rightarrow> idstr v)"

datatype log_entry = LogInfo string jsval | LogError string js_error | LogErrorItems string jsval

fun string_of_nat :: "nat \<Rightarrow> string" where
  "string_of_nat n =
     (if n < 10 then [''0123456789'' ! n]
      else string_of_nat (n div 10) @ [''0123456789'' ! (n mod 10)])"

section \<open>src/services/syncService.js\<close>

definition bulkBody :: "string \<Rightarrow> jsobject list \<Rightarrow> jsval list" where
  \<comment> \<open>\<open>documents.flatMap(doc => [{ index: { _index: indexName, _id: doc._id } }, doc])\<close>\<close>
  "bulkBody idx documents =
     concat (map (\<lambda>doc.
       [JObj [(''index'', JObj [(''_index'', JStr idx), (''_id'', js_prop (JObj doc) ''_id'')])],
        JObj doc]) documents)"

definition bulkSync_try :: "env \<Rightarrow> collection option \<Rightarrow> 's index_client option \<Rightarrow> 's \<Rightarrow> (js_error + nat) \<times> log_entry list \<times> 's" where
  \<comment> \<open>the \<open>try\<close> block of \<open>bulkSyncToElasticsearch\<close>\<close>
  "bulkSync_try ev coll client st =
     (case getCollection coll of
        Inl e \<Rightarrow> (Inl e, [], st)
      | Inr c \<Rightarrow>
     (case getClient client of
        Inl e \<Rightarrow> (Inl e, [], st)
      | Inr esClient \<Rightarrow>
     (case find_all c of
        Inl e \<Rightarrow> (Inl e, [], st)
      | Inr documents \<Rightarrow>
          (let found = LogInfo (''Found '' @ string_of_nat (length documents) @ '' documents to sync'') JUndefined in
           if length documents > 0
           then (case es_bulk esClient
                        (JObj [(''refresh'', JBool True), (''body'', JArr (bulkBody (indexName ev) documents))]) st of
                   Inl e \<Rightarrow> (Inl e, [found], st)
                 | Inr (response, st') \<Rightarrow>
                     (case js_get response ''errors'' of
                        Inl e \<Rightarrow> (Inl e, [found], st')
                      | Inr errs \<Rightarrow>
                          if js_truthy errs
                          then (Inr (length documents),
                                [found, LogErrorItems ''Bulk sync had errors:'' (js_prop response ''items'')], st')
                          else (Inr (length documents),
                                [found, LogInfo (''Successfully synced '' @ string_of_nat (length documents) @ '' documents'') JUndefined],
                                st')))
           else (Inr (length documents), [found], st)))))"

definition bulkSyncToElasticsearch :: "env \<Rightarrow> collection option \<Rightarrow> 's index_client option \<Rightarrow> 's \<Rightarrow> (js_error + nat) \<times> log_entry list \<times> 's" where
  \<comment> \<open>the \<open>catch\<close> block logs the error and throws it again\<close>
  "bulkSyncToElasticsearch ev coll client st =
     (case bulkSync_try ev coll client st of
        (Inl error, logs, st') \<Rightarrow> (Inl error, logs @ [LogError ''Bulk sync error:'' error], st')
      | (Inr n, logs, st') \<Rightarrow> (Inr n, logs, st'))"

text \<open>
  A change event, as \<open>handleChangeEvent\<close> reads it: \<open>change.operationType\<close>,
  \<open>change.documentKey\<close> and \<open>change.fullDocument\<close>.
\<close>

record change_event =
  operationType :: string
  documentKey :: jsval
  fullDocument :: jsval

definition handleChangeEvent_try :: "change_event \<Rightarrow> 's index_client \<Rightarrow> string \<Rightarrow> 's \<Rightarrow> js_error + (log_entry list \<times> 's)" where
  \<comment> \<open>the \<open>try\<close> block: the \<open>switch\<close> on \<open>change.operationType\<close>\<close>
  "handleChangeEvent_try change esClient idx st =
     (if operationType change = ''insert'' then
        (case js_get (documentKey change) ''_id'' of
           Inl e \<Rightarrow> Inl e
         | Inr i \<Rightarrow>
             (case es_index esClient
                     (JObj [(''index'', JStr idx), (''id'', i), (''body'', fullDocument change)]) st of
                Inl e \<Rightarrow> Inl e
              | Inr st' \<Rightarrow> Inr ([LogInfo ''Document inserted in Elasticsearch:'' i], st')))
      else if operationType change = ''update'' then
        (case js_get (documentKey change) ''_id'' of
           Inl e \<Rightarrow> Inl e
         | Inr i \<Rightarrow>
             (case es_update esClient
                     (JObj [(''index'', JStr idx), (''id'', i),
                            (''body'', JObj [(''doc'', fullDocument change)])]) st of
                Inl e \<Rightarrow> Inl e
              | Inr st' \<Rightarrow> Inr ([LogInfo ''Document updated in Elasticsearch:'' i], st')))
      else if operationType change = ''delete'' then
        (case js_get (documentKey change) ''_id'' of
           Inl e \<Rightarrow> Inl e
         | Inr i \<Rightarrow>
             (case es_delete esClient (JObj [(''index'', JStr idx), (''id'', i)]) st of
                Inl e \<Rightarrow> Inl e
              | Inr st' \<Rightarrow> Inr ([LogInfo ''Document deleted from Elasticsearch:'' i], st')))
      else Inr ([LogInfo ''Unhandled change operation:'' (JStr (operationType change))], st))"

definition handleChangeEvent :: "change_event \<Rightarrow> 's index_client \<Rightarrow> string \<Rightarrow> 's \<Rightarrow> js_error + (log_entry list \<times> 's)" where
  \<comment> \<open>the \<open>catch\<close> block logs the error and returns\<close>
  "handleChangeEvent change esClient idx st =
     (case handleChangeEvent_try change esClient idx st of
        Inl error \<Rightarrow> Inr ([LogError ''Error handling change event:'' error], st)
      | Inr r \<Rightarrow> Inr r)"

definition and_then :: "js_error + (log_entry list \<times> 's) \<Rightarrow> ('s \<Rightarrow> js_error + (log_entry list \<times> 's)) \<Rightarrow> js_error + (log_entry list \<times> 's)" where
  \<comment> \<open>\<open>await a; await b\<close>: the second call runs when the first one has not thrown\<close>
  "and_then r f =
     (case r of
        Inl e \<Rightarrow> Inl e
      | Inr (logs, st) \<Rightarrow>
          (case f st of Inl e \<Rightarrow> Inl e | Inr (logs', st') \<Rightarrow> Inr (logs @ logs', st')))"

section \<open>The sync routes (the second module of src/routes/searchRoutes.js)\<close>

text \<open>
  Calling \<open>_id.toString()\<close> on \<open>undefined\<close> or \<open>null\<close> is a TypeError.
  \<open>now\<close> is \<open>new Date().toISOString()\<close>.
\<close>

definition routeBulkLines :: "(jsval \<Rightarrow> string) \<Rightarrow> string \<Rightarrow> jsobject \<Rightarrow> js_error + jsval list" where
  \<comment> \<open>the callback of \<open>flatMap\<close>: \<open>const { _id, ...docWithoutId } = doc\<close>\<close>
  "routeBulkLines idstr idx doc =
     (let id = js_prop (JObj doc) ''_id''; docWithoutId = AList.delete ''_id'' doc
      in if js_nullish id then Inl (TypeError ''Cannot read properties of undefined (reading toString)'')
         else Inr [JObj [(''index'', JObj [(''_index'', JStr idx), (''_id'', JStr (toString_id idstr id))])],
                   JObj docWithoutId])"

definition routeBulkBody :: "(jsval \<Rightarrow> string) \<Rightarrow> string \<Rightarrow> jsobject list \<Rightarrow> js_error + jsval list" where
  "routeBulkBody idstr idx documents =
     (case traverse (routeBulkLines idstr idx) documents of
        Inl e \<Rightarrow> Inl e
      | Inr ls \<Rightarrow> Inr (concat ls))"

definition itemFailed :: "jsval \<Rightarrow> js_error + bool" where
  \<comment> \<open>\<open>item => item.index && item.index.error\<close>\<close>
  "itemFailed item =
     (case js_get item ''index'' of
        Inl e \<Rightarrow> Inl e
      | Inr ix \<Rightarrow> Inr (js_truthy (js_and ix (js_prop ix ''error''))))"

fun filterItems :: "jsval list \<Rightarrow> js_error + jsval list" where
  "filterItems [] = Inr []"
| "filterItems (item # items) =
     (case itemFailed item of
        Inl e \<Rightarrow> Inl e
      | Inr keep \<Rightarrow>
          (case filterItems items of
             Inl e \<Rightarrow> Inl e
           | Inr rest \<Rightarrow> Inr (if keep then item # rest else rest)))"

definition failedItems :: "jsval \<Rightarrow> js_error + jsval" where
  \<comment> \<open>\<open>response.items.filter(item => item.index && item.index.error)\<close>\<close>
  "failedItems response =
     (case js_prop response ''items'' of
        JArr items \<Rightarrow> (case filterItems items of Inl e \<Rightarrow> Inl e | Inr fs \<Rightarrow> Inr (JArr fs))
      | _ \<Rightarrow> Inl (TypeError ''response.items.filter is not a function''))"

definition bulk_try :: "env \<Rightarrow> (jsval \<Rightarrow> string) \<Rightarrow> string \<Rightarrow> collection option \<Rightarrow> 's index_client option \<Rightarrow> 's \<Rightarrow> (js_error + http_response) \<times> 's" where
  \<comment> \<open>the \<open>try\<close> block of \<open>POST /api/sync/bulk\<close>\<close>
  "bulk_try ev idstr now coll client st =
     (case getCollection coll of
        Inl e \<Rightarrow> (Inl e, st)
      | Inr c \<Rightarrow>
     (case find_all c of
        Inl e \<Rightarrow> (Inl e, st)
      | Inr documents \<Rightarrow>
          if length documents = 0
          then (Inr (res_json (JObj [
                  (''success'', JBool True),
                  (''message'', JStr ''No documents found in MongoDB to sync''),
                  (''documentsProcessed'', JNum 0)])), st)
          else
     (case getClient client of
        Inl e \<Rightarrow> (Inl e, st)
      | Inr esClient \<Rightarrow>
     (case routeBulkBody idstr (indexName ev) documents of
        Inl e \<Rightarrow> (Inl e, st)
      | Inr lines \<Rightarrow>
     (case es_bulk esClient (JObj [(''refresh'', JBool True), (''body'', JArr lines)]) st of
        Inl e \<Rightarrow> (Inl e, st)
      | Inr (response, st') \<Rightarrow>
     (case js_get response ''errors'' of
        Inl e \<Rightarrow> (Inl e, st')
      | Inr errs \<Rightarrow>
          if js_truthy errs
          then (case failedItems response of
                  Inl e \<Rightarrow> (Inl e, st')
                | Inr failed \<Rightarrow>
                    (Inr (res_status_json 500 (JObj [
                       (''success'', JBool False),
                       (''error'', JStr ''Bulk sync completed with errors''),
                       (''documentsProcessed'', JNum (of_nat (length documents))),
                       (''errors'', failed)])), st'))
          else (Inr (res_json (JObj [
                  (''success'', JBool True),
                  (''message'', JStr ''Bulk sync completed successfully''),
                  (''documentsProcessed'', JNum (of_nat (length documents))),
                  (''timestamp'', JStr now)])), st')))))))"

definition syncBulk :: "env \<Rightarrow> (jsval \<Rightarrow> string) \<Rightarrow> string \<Rightarrow> collection option \<Rightarrow> 's index_client option \<Rightarrow> 's \<Rightarrow> http_response \<times> 's" where
  \<comment> \<open>\<open>POST /api/sync/bulk\<close>\<close>
  "syncBulk ev idstr now coll client st =
     (case bulk_try ev idstr now coll client st of
        (Inl error, st') \<Rightarrow>
          (res_status_json 500 (JObj [
             (''success'', JBool False),
             (''error'', JStr ''Bulk sync failed''),
             (''message'', JStr (err_message error))]), st')
      | (Inr res, st') \<Rightarrow> (res, st'))"

definition esCountOf :: "count_response \<Rightarrow> nat" where
  \<comment> \<open>\<open>esResponse.body?.count || esResponse.count || 0\<close>\<close>
  "esCountOf r =
     (case body_count r of
        Some n \<Rightarrow> (if n \<noteq> 0 then n else (case top_count r of Some m \<Rightarrow> m | None \<Rightarrow> 0))
      | None \<Rightarrow> (case top_count r of Some m \<Rightarrow> m | None \<Rightarrow> 0))"

definition statusEsCount :: "env \<Rightarrow> 's index_client \<Rightarrow> 's \<Rightarrow> js_error + nat" where
  \<comment> \<open>the inner \<open>try\<close>/\<open>catch\<close> of the status probe\<close>
  "statusEsCount ev esClient st =
     (case es_count esClient (JObj [(''index'', JStr (indexName ev))]) st of
        Inr esResponse \<Rightarrow> Inr (esCountOf esResponse)
      | Inl esError \<Rightarrow> (if err_statusCode esError = Some 404 then Inr 0 else Inl esError))"

definition status_try :: "env \<Rightarrow> string \<Rightarrow> collection option \<Rightarrow> 's index_client option \<Rightarrow> 's \<Rightarrow> js_error + http_response" where
  "status_try ev now coll client st =
     (case getCollection coll of
        Inl e \<Rightarrow> Inl e
      | Inr c \<Rightarrow>
     (case getClient client of
        Inl e \<Rightarrow> Inl e
      | Inr esClient \<Rightarrow>
     (case countDocuments c of
        Inl e \<Rightarrow> Inl e
      | Inr mongoCount \<Rightarrow>
     (case statusEsCount ev esClient st of
        Inl e \<Rightarrow> Inl e
      | Inr esCount \<Rightarrow>
          Inr (res_json (JObj [
            (''mongodb'', JObj [
               (''count'', JNum (of_nat mongoCount)),
               (''database'', JStr (env_or ev ''MONGODB_DATABASE'' ''lucene'')),
               (''collection'', JStr (env_or ev ''MONGODB_COLLECTION'' ''subnet_details''))]),
            (''elasticsearch'', JObj [
               (''count'', JNum (of_nat esCount)),
               (''index'', JStr (indexName ev))]),
            (''synced'', JBool (mongoCount = esCount)),
            (''difference'', JNum (of_int (int mongoCount - int esCount))),
            (''timestamp'', JStr now)]))))))"

definition syncStatus :: "env \<Rightarrow> string \<Rightarrow> collection option \<Rightarrow> 's index_client option \<Rightarrow> 's \<Rightarrow> http_response" where
  \<comment> \<open>\<open>GET /api/sync/status\<close>\<close>
  "syncStatus ev now coll client st =
     (case status_try ev now coll client st of
        Inl error \<Rightarrow>
          res_status_json 500 (JObj [
            (''error'', JStr ''Failed to get sync status''),
            (''message'', JStr (err_message error))])
      | Inr res \<Rightarrow> res)"

section \<open>A model of the index engine\<close>

text \<open>
  The index engine is an external service. Where a property depends on what the engine does
  with a request, it is stated on this model of its documented contract for one index:
  the store maps an index identifier to the stored source. \<open>accepts\<close> is the check of a
  source against the index mapping (a document it refuses is a mapper parsing error, 400).
  \<^item> \<open>index\<close> stores the body under the identifier, replacing what is there;
  \<^item> \<open>update\<close> merges the partial document \<open>body.doc\<close> into the stored source; on an
    identifier with no document it inserts only when the request carries
    \<open>doc_as_upsert\<close> or an \<open>upsert\<close> document, and is otherwise a 404
    (document missing);
  \<^item> \<open>delete\<close> removes the document and is a 404 when there is none;
  \<^item> \<open>bulk\<close> runs its index actions one by one, each succeeding or failing on its own,
    and answers with one item per action and the flag \<open>errors\<close>;
  \<^item> \<open>count\<close> is the number of documents.
\<close>

type_synonym es_store = "(string \<times> jsval) list"

definition model_index :: "(jsval \<Rightarrow> bool) \<Rightarrow> (jsval \<Rightarrow> string) \<Rightarrow> jsval \<Rightarrow> es_store \<Rightarrow> js_error + es_store" where
  "model_index accepts idstr request st =
     (if accepts (js_prop request ''body'')
      then Inr (AList.update (toString_id idstr (js_prop request ''id'')) (js_prop request ''body'') st)
      else Inl (JsError ''mapper_parsing_exception'' (Some 400)))"

definition merge_doc :: "jsval \<Rightarrow> jsval \<Rightarrow> jsval" where
  \<comment> \<open>the fields of the partial document replace those of the stored source\<close>
  "merge_doc old partial =
     (case (old, partial) of
        (JObj a, JObj b) \<Rightarrow> JObj (AList.merge a b)
      | _ \<Rightarrow> partial)"

definition model_update :: "(jsval \<Rightarrow> bool) \<Rightarrow> (jsval \<Rightarrow> string) \<Rightarrow> jsval \<Rightarrow> es_store \<Rightarrow> js_error + es_store" where
  "model_update accepts idstr request st =
     (let i = toString_id idstr (js_prop request ''id''); b = js_prop request ''body'' in
      case map_of st i of
        None \<Rightarrow>
          if js_truthy (js_prop b ''doc_as_upsert'') \<and> accepts (js_prop b ''doc'')
          then Inr (AList.update i (js_prop b ''doc'') st)
          else if \<not> js_nullish (js_prop b ''upsert'') \<and> accepts (js_prop b ''upsert'')
          then Inr (AList.update i (js_prop b ''upsert'') st)
          else if js_truthy (js_prop b ''doc_as_upsert'') \<or> \<not> js_nullish (js_prop b ''upsert'')
          then Inl (JsError ''mapper_parsing_exception'' (Some 400))
          else Inl (JsError ''document_missing_exception'' (Some 404))
      | Some old \<Rightarrow>
          if accepts (merge_doc old (js_prop b ''doc''))
          then Inr (AList.update i (merge_doc old (js_prop b ''doc'')) st)
          else Inl (JsError ''mapper_parsing_exception'' (Some 400)))"

definition model_delete :: "(jsval \<Rightarrow> string) \<Rightarrow> jsval \<Rightarrow> es_store \<Rightarrow> js_error + es_store" where
  "model_delete idstr request st =
     (let i = toString_id idstr (js_prop request ''id'') in
      case map_of st i of
        None \<Rightarrow> Inl (JsError ''Response Error'' (Some 404))
      | Some old \<Rightarrow> Inr (AList.delete i st))"

fun model_bulk_items :: "(jsval \<Rightarrow> bool) \<Rightarrow> (jsval \<Rightarrow> string) \<Rightarrow> jsval list \<Rightarrow> es_store \<Rightarrow> jsval list \<times> es_store" where
  "model_bulk_items accepts idstr (action # source # rest) st =
     (let i = toString_id idstr (js_prop (js_prop action ''index'') ''_id'') in
      if accepts source
      then (case model_bulk_items accepts idstr rest (AList.update i source st) of
              (items, st') \<Rightarrow>
                (JObj [(''index'', JObj [(''_id'', JStr i),
                         (''status'', JNum (if map_of st i = None then 201 else 200))])] # items, st'))
      else (case model_bulk_items accepts idstr rest st of
              (items, st') \<Rightarrow>
                (JObj [(''index'', JObj [(''_id'', JStr i), (''status'', JNum 400),
                         (''error'', JObj [(''type'', JStr ''mapper_parsing_exception'')])])] # items, st')))"
| "model_bulk_items accepts idstr lines st = ([], st)"

definition model_bulk :: "(jsval \<Rightarrow> bool) \<Rightarrow> (jsval \<Rightarrow> string) \<Rightarrow> jsval \<Rightarrow> es_store \<Rightarrow> js_error + (jsval \<times> es_store)" where
  "model_bulk accepts idstr request st =
     (case js_prop request ''body'' of
        JArr lines \<Rightarrow>
          (case model_bulk_items accepts idstr lines st of
             (items, st') \<Rightarrow>
               Inr (JObj [(''errors'', JBool (list_ex (\<lambda>it. js_truthy (js_prop (js_prop it ''index'') ''error'')) items)),
                          (''items'', JArr items)], st'))
      | _ \<Rightarrow> Inl (JsError ''parse_exception'' (Some 400)))"

definition model_count :: "jsval \<Rightarrow> es_store \<Rightarrow> js_error + count_response" where
  "model_count request st = Inr \<lparr>body_count = None, top_count = Some (length st)\<rparr>"

definition engine :: "(jsval \<Rightarrow> bool) \<Rightarrow> (jsval \<Rightarrow> string) \<Rightarrow> es_store index_client" where
  "engine accepts idstr =
     \<lparr>es_bulk = model_bulk accepts idstr,
      es_count = model_count,
      es_index = model_index accepts idstr,
      es_update = model_update accepts idstr,
      es_delete = model_delete idstr\<rparr>"

text \<open>A client that accepts every request and keeps the requests it was sent, in order.\<close>

definition recorder :: "jsval list index_client" where
  "recorder =
     \<lparr>es_bulk = (\<lambda>request sent. Inr (JObj [(''errors'', JBool False), (''items'', JArr [])], sent @ [request])),
      es_count = (\<lambda>request sent. Inr \<lparr>body_count = None, top_count = Some 0\<rparr>),
      es_index = (\<lambda>request sent. Inr (sent @ [request])),
      es_update = (\<lambda>request sent. Inr (sent @ [request])),
      es_delete = (\<lambda>request sent. Inr (sent @ [request]))\<rparr>"

text \<open>
  Names for what the bulk route sends for one record: the index identifier, the source
  (the record without its \<open>_id\<close>), the action line; and for what the engine model does with
  the records of one batch, one after the other.
\<close>

definition docKey :: "(jsval \<Rightarrow> string) \<Rightarrow> jsobject \<Rightarrow> string" where
  "docKey idstr doc = toString_id idstr (js_prop (JObj doc) ''_id'')"

definition docSource :: "jsobject \<Rightarrow> jsval" where
  "docSource doc = JObj (AList.delete ''_id'' doc)"

definition docAction :: "(jsval \<Rightarrow> string) \<Rightarrow> string \<Rightarrow> jsobject \<Rightarrow> jsval" where
  "docAction idstr idx doc = JObj [(''index'', JObj [(''_index'', JStr idx), (''_id'', JStr (docKey idstr doc))])]"

definition failedItem :: "string \<Rightarrow> jsval" where
  "failedItem i =
     JObj [(''index'', JObj [(''_id'', JStr i), (''status'', JNum 400),
              (''error'', JObj [(''type'', JStr ''mapper_parsing_exception'')])])]"

definition indexAccepted :: "(jsval \<Rightarrow> bool) \<Rightarrow> (jsval \<Rightarrow> string) \<Rightarrow> jsobject \<Rightarrow> es_store \<Rightarrow> es_store" where
  "indexAccepted accepts idstr doc st =
     (if accepts (docSource doc) then AList.update (docKey idstr doc) (docSource doc) st else st)"

section \<open>Properties\<close>

subsection \<open>Sort translation\<close>

text \<open>
  C4 (as amended). \<open>buildSortConfig\<close> never fails. A sort field outside the allow-list
  (\<open>_score\<close>, \<open>TIMESTAMP\<close>, \<open>CLUSTERID\<close>, \<open>SITE\<close>, \<open>USERNAME\<close>) falls back to relevance,
  ordered in the requested direction when that is \<open>asc\<close> or \<open>desc\<close> and descending
  otherwise; an invalid direction falls back to descending; every sort on a field other
  than relevance is followed by relevance descending as the tie-break key.
\<close>

theorem buildSortConfig_translation:
  "buildSortConfig sortBy sortOrder =
     (if sortBy = ''TIMESTAMP'' \<or> sortBy = ''CLUSTERID'' \<or> sortBy = ''SITE'' \<or> sortBy = ''USERNAME''
      then [JObj [(sortBy, JObj [(''order'', JStr (if sortOrder = ''asc'' then ''asc'' else ''desc''))])],
            JObj [(''_score'', JObj [(''order'', JStr ''desc'')])]]
      else [JObj [(''_score'', JObj [(''order'', JStr (if sortOrder = ''asc'' then ''asc'' else ''desc''))])]])"
  by (auto simp: buildSortConfig_def validSortFields_def sort_key_def Let_def)

theorem buildSortConfig_translation_witness:
  "buildSortConfig ''SITE'' ''up'' =
     [JObj [(''SITE'', JObj [(''order'', JStr ''desc'')])],
      JObj [(''_score'', JObj [(''order'', JStr ''desc'')])]]"
  using buildSortConfig_translation [of "''SITE''" "''up''"] by simp

text \<open>
  The claim as stated fails: an unknown sort field with direction \<open>asc\<close> gives relevance
  ascending, not relevance descending.
\<close>

theorem buildSortConfig_fallback_counterexample:
  "buildSortConfig ''bogus'' ''asc'' = [JObj [(''_score'', JObj [(''order'', JStr ''asc'')])]] \<and>
   buildSortConfig ''bogus'' ''asc'' \<noteq> [JObj [(''_score'', JObj [(''order'', JStr ''desc'')])]]"
  by (simp add: buildSortConfig_def validSortFields_def sort_key_def)

subsection \<open>Projection\<close>

lemma js_prop_update_same: "js_prop (JObj (AList.update k v al)) k = v"
  by (simp add: update_conv')

text \<open>
  C5 (as amended). For every record, \<open>suggest.input\<close> is the list of the values of the
  fields \<open>CLUSTERID\<close>, \<open>SITE\<close>, \<open>DESCRIPTION\<close>, in that order, that are present and not
  empty (truthy): an absent or empty field contributes nothing, so no empty string is
  indexed; it is a list and not a set, one entry per field, so a value held by two fields
  appears twice.
\<close>

theorem suggest_input_fields:
  "js_prop (js_prop (JObj (transformForElasticsearch doc)) ''suggest'') ''input'' =
     JArr (filter js_truthy
       [js_prop (JObj doc) ''CLUSTERID'', js_prop (JObj doc) ''SITE'', js_prop (JObj doc) ''DESCRIPTION'']) \<and>
   JStr [] \<notin> set (filter js_truthy
       [js_prop (JObj doc) ''CLUSTERID'', js_prop (JObj doc) ''SITE'', js_prop (JObj doc) ''DESCRIPTION'']) \<and>
   JUndefined \<notin> set (filter js_truthy
       [js_prop (JObj doc) ''CLUSTERID'', js_prop (JObj doc) ''SITE'', js_prop (JObj doc) ''DESCRIPTION''])"
proof -
  have "js_prop (js_prop (JObj (transformForElasticsearch doc)) ''suggest'') ''input'' =
     JArr (filter js_truthy
       [js_prop (JObj doc) ''CLUSTERID'', js_prop (JObj doc) ''SITE'', js_prop (JObj doc) ''DESCRIPTION''])"
    unfolding transformForElasticsearch_def Let_def js_prop_update_same by simp
  moreover have "JStr [] \<notin> set (filter js_truthy xs)" for xs
    by simp
  moreover have "JUndefined \<notin> set (filter js_truthy xs)" for xs
    by simp
  ultimately show ?thesis by blast
qed

theorem suggest_input_fields_witness:
  "js_prop (js_prop (JObj (transformForElasticsearch
      [(''_id'', JStr ''1''), (''CLUSTERID'', JStr ''c1''), (''SITE'', JStr []), (''DESCRIPTION'', JStr ''lab'')]))
      ''suggest'') ''input'' = JArr [JStr ''c1'', JStr ''lab'']"
  using suggest_input_fields [of "[(''_id'', JStr ''1''), (''CLUSTERID'', JStr ''c1''), (''SITE'', JStr []), (''DESCRIPTION'', JStr ''lab'')]"]
  by simp

text \<open>
  The claim as stated fails: a value held by two fields is not collapsed.
\<close>

theorem suggest_input_duplicates_counterexample:
  "js_prop (js_prop (JObj (transformForElasticsearch
      [(''_id'', JStr ''1''), (''CLUSTERID'', JStr ''x''), (''SITE'', JStr ''x'')])) ''suggest'') ''input'' =
     JArr [JStr ''x'', JStr ''x''] \<and>
   \<not> distinct [JStr ''x'', JStr ''x'']"
  by (simp add: transformForElasticsearch_def)

subsection \<open>Result formatting\<close>

lemma traverse_total:
  "list_all (\<lambda>x. \<exists>y. f x = Inr y \<and> y = g x) xs \<Longrightarrow> traverse f xs = Inr (map g xs)"
  by (induction xs) auto

lemma mapHits_searchHit:
  assumes "js_prop h ''hits'' = JArr xs \<and> list_all (\<lambda>x. \<not> js_nullish x) xs \<or>
           js_nullish (js_prop h ''hits'') \<and> xs = []"
  shows "mapHits searchHit h =
    Inr (JArr (map (\<lambda>hit. JObj [
        (''id'', js_prop hit ''_id''),
        (''score'', js_prop hit ''_score''),
        (''source'', js_prop hit ''_source''),
        (''highlight'', if js_truthy (js_prop hit ''highlight'') then js_prop hit ''highlight'' else JObj [])]) xs))"
proof -
  let ?g = "\<lambda>hit. JObj [
        (''id'', js_prop hit ''_id''),
        (''score'', js_prop hit ''_score''),
        (''source'', js_prop hit ''_source''),
        (''highlight'', if js_truthy (js_prop hit ''highlight'') then js_prop hit ''highlight'' else JObj [])]"
  from assms show ?thesis
  proof
    assume a: "js_prop h ''hits'' = JArr xs \<and> list_all (\<lambda>x. \<not> js_nullish x) xs"
    then have "list_all (\<lambda>x. \<exists>y. searchHit x = Inr y \<and> y = ?g x) xs"
      by (auto simp: list_all_iff searchHit_def js_or_def)
    then have "traverse searchHit xs = Inr (map ?g xs)"
      by (rule traverse_total)
    with a show ?thesis by (simp add: mapHits_def)
  next
    assume "js_nullish (js_prop h ''hits'') \<and> xs = []"
    then show ?thesis by (cases "js_prop h ''hits''") (simp_all add: mapHits_def)
  qed
qed

lemma mapHits_advancedHit:
  assumes "js_prop h ''hits'' = JArr xs \<and> list_all (\<lambda>x. \<not> js_nullish x) xs \<or>
           js_nullish (js_prop h ''hits'') \<and> xs = []"
  shows "mapHits advancedHit h =
    Inr (JArr (map (\<lambda>hit. JObj [
        (''id'', js_prop hit ''_id''),
        (''score'', js_prop hit ''_score''),
        (''source'', js_prop hit ''_source'')]) xs))"
proof -
  let ?g = "\<lambda>hit. JObj [
        (''id'', js_prop hit ''_id''),
        (''score'', js_prop hit ''_score''),
        (''source'', js_prop hit ''_source'')]"
  from assms show ?thesis
  proof
    assume a: "js_prop h ''hits'' = JArr xs \<and> list_all (\<lambda>x. \<not> js_nullish x) xs"
    then have "list_all (\<lambda>x. \<exists>y. advancedHit x = Inr y \<and> y = ?g x) xs"
      by (auto simp: list_all_iff advancedHit_def)
    then have "traverse advancedHit xs = Inr (map ?g xs)"
      by (rule traverse_total)
    with a show ?thesis by (simp add: mapHits_def)
  next
    assume "js_nullish (js_prop h ''hits'') \<and> xs = []"
    then show ?thesis by (cases "js_prop h ''hits''") (simp_all add: mapHits_def)
  qed
qed

lemma totalValue_cases:
  "(js_nullish (js_prop h ''total'') \<longrightarrow> totalValue h = JNum 0) \<and>
   (js_truthy (js_opt_get (js_prop h ''total'') ''value'') \<longrightarrow>
      totalValue h = js_opt_get (js_prop h ''total'') ''value'')"
  by (cases "js_prop h ''total''") (simp_all add: totalValue_def js_or_def js_opt_get_def)

text \<open>
  C8 (as amended). For every raw response (an object) whose hit list, where there is one,
  is an array of hit objects, the formatter takes the hits from the nested shape
  \<open>response.body.hits\<close> first and from the unnested shape \<open>response.hits\<close> second, and
  from a default when both are missing, and it answers without an error: the hit list of
  the answer is the list of the raw hits, each as \<open>id\<close>, \<open>score\<close>, \<open>source\<close> (and
  \<open>highlight\<close>), and is empty when the raw list is missing; the relation of the answer is
  the relation the engine reports whenever it reports one, and \<open>eq\<close> otherwise; the value of
  the total is the engine's when that is present and not zero, and zero when the raw total
  is missing.
\<close>

theorem formatter_shapes_and_defaults:
  assumes "\<not> js_nullish response"
  shows "let nested = js_opt_get (js_prop response ''body'') ''hits'';
             flat = js_prop response ''hits'';
             h = (if js_truthy nested then nested else if js_truthy flat then flat else defaultHits);
             total = js_prop h ''total'';
             relation = js_opt_get total ''relation''
         in responseHits response = Inr h \<and>
            (js_prop h ''hits'' = JArr xs \<and> list_all (\<lambda>x. \<not> js_nullish x) xs \<or>
             js_nullish (js_prop h ''hits'') \<and> xs = [] \<longrightarrow>
             (\<exists>v. formatSearchResponse response =
                     Inr (res_json (JObj [
                       (''total'', JObj [(''value'', v),
                                        (''relation'', if js_truthy relation then relation else JStr ''eq'')]),
                       (''hits'', JArr (map (\<lambda>hit. JObj [
                          (''id'', js_prop hit ''_id''),
                          (''score'', js_prop hit ''_score''),
                          (''source'', js_prop hit ''_source''),
                          (''highlight'', if js_truthy (js_prop hit ''highlight'')
                                          then js_prop hit ''highlight'' else JObj [])]) xs))])) \<and>
                  formatAdvancedResponse response =
                     Inr (res_json (JObj [
                       (''total'', JObj [(''value'', v),
                                        (''relation'', if js_truthy relation then relation else JStr ''eq'')]),
                       (''hits'', JArr (map (\<lambda>hit. JObj [
                          (''id'', js_prop hit ''_id''),
                          (''score'', js_prop hit ''_score''),
                          (''source'', js_prop hit ''_source'')]) xs)),
                       (''aggregations'',
                          if js_truthy (js_opt_get (js_prop response ''body'') ''aggregations'')
                          then js_opt_get (js_prop response ''body'') ''aggregations''
                          else if js_truthy (js_prop response ''aggregations'')
                          then js_prop response ''aggregations'' else JObj [])])) \<and>
                  (js_nullish total \<longrightarrow> v = JNum 0) \<and>
                  (js_truthy (js_opt_get total ''value'') \<longrightarrow> v = js_opt_get total ''value'')))"
proof -
  define nested where "nested = js_opt_get (js_prop response ''body'') ''hits''"
  define flat where "flat = js_prop response ''hits''"
  define h where "h = (if js_truthy nested then nested else if js_truthy flat then flat else defaultHits)"
  define total where "total = js_prop h ''total''"
  define relation where "relation = js_opt_get total ''relation''"
  have rh: "responseHits response = Inr h"
    using assms by (simp add: responseHits_def js_get_def js_or_def h_def nested_def flat_def)
  have rel: "totalRelation h = (if js_truthy relation then relation else JStr ''eq'')"
    by (simp add: totalRelation_def js_or_def relation_def total_def)
  have out: "\<exists>v. formatSearchResponse response =
                     Inr (res_json (JObj [
                       (''total'', JObj [(''value'', v),
                                        (''relation'', if js_truthy relation then relation else JStr ''eq'')]),
                       (''hits'', JArr (map (\<lambda>hit. JObj [
                          (''id'', js_prop hit ''_id''),
                          (''score'', js_prop hit ''_score''),
                          (''source'', js_prop hit ''_source''),
                          (''highlight'', if js_truthy (js_prop hit ''highlight'')
                                          then js_prop hit ''highlight'' else JObj [])]) xs))])) \<and>
                  formatAdvancedResponse response =
                     Inr (res_json (JObj [
                       (''total'', JObj [(''value'', v),
                                        (''relation'', if js_truthy relation then relation else JStr ''eq'')]),
                       (''hits'', JArr (map (\<lambda>hit. JObj [
                          (''id'', js_prop hit ''_id''),
                          (''score'', js_prop hit ''_score''),
                          (''source'', js_prop hit ''_source'')]) xs)),
                       (''aggregations'',
                          if js_truthy (js_opt_get (js_prop response ''body'') ''aggregations'')
                          then js_opt_get (js_prop response ''body'') ''aggregations''
                          else if js_truthy (js_prop response ''aggregations'')
                          then js_prop response ''aggregations'' else JObj [])])) \<and>
                  (js_nullish total \<longrightarrow> v = JNum 0) \<and>
                  (js_truthy (js_opt_get total ''value'') \<longrightarrow> v = js_opt_get total ''value'')"
    if hyp: "js_prop h ''hits'' = JArr xs \<and> list_all (\<lambda>x. \<not> js_nullish x) xs \<or>
             js_nullish (js_prop h ''hits'') \<and> xs = []"
  proof (intro exI [of _ "totalValue h"] conjI)
    show "formatSearchResponse response = Inr (res_json (JObj [
                       (''total'', JObj [(''value'', totalValue h),
                                        (''relation'', if js_truthy relation then relation else JStr ''eq'')]),
                       (''hits'', JArr (map (\<lambda>hit. JObj [
                          (''id'', js_prop hit ''_id''),
                          (''score'', js_prop hit ''_score''),
                          (''source'', js_prop hit ''_source''),
                          (''highlight'', if js_truthy (js_prop hit ''highlight'')
                                          then js_prop hit ''highlight'' else JObj [])]) xs))]))"
      by (simp add: formatSearchResponse_def rh mapHits_searchHit [OF hyp] rel)
    show "formatAdvancedResponse response = Inr (res_json (JObj [
                       (''total'', JObj [(''value'', totalValue h),
                                        (''relation'', if js_truthy relation then relation else JStr ''eq'')]),
                       (''hits'', JArr (map (\<lambda>hit. JObj [
                          (''id'', js_prop hit ''_id''),
                          (''score'', js_prop hit ''_score''),
                          (''source'', js_prop hit ''_source'')]) xs)),
                       (''aggregations'',
                          if js_truthy (js_opt_get (js_prop response ''body'') ''aggregations'')
                          then js_opt_get (js_prop response ''body'') ''aggregations''
                          else if js_truthy (js_prop response ''aggregations'')
                          then js_prop response ''aggregations'' else JObj [])]))"
      by (simp add: formatAdvancedResponse_def rh mapHits_advancedHit [OF hyp] rel js_or_def)
    show "js_nullish total \<longrightarrow> totalValue h = JNum 0"
      using totalValue_cases [of h] by (simp add: total_def)
    show "js_truthy (js_opt_get total ''value'') \<longrightarrow> totalValue h = js_opt_get total ''value''"
      using totalValue_cases [of h] by (simp add: total_def)
  qed
  show ?thesis
    unfolding Let_def nested_def [symmetric] flat_def [symmetric] h_def [symmetric]
      total_def [symmetric] relation_def [symmetric]
    using rh out by blast
qed

text \<open>
  Two instances: a response in the unnested shape with one hit and a lower-bound total, and
  one with neither total nor hit list.
\<close>

theorem formatter_shapes_and_defaults_witness:
  "formatSearchResponse (JObj [(''hits'', JObj [
       (''total'', JObj [(''value'', JNum 12000), (''relation'', JStr ''gte'')]),
       (''hits'', JArr [JObj [(''_id'', JStr ''a1''), (''_score'', JNum (3 / 2)),
                              (''_source'', JObj [(''SITE'', JStr ''east'')])]])])]) =
     Inr (res_json (JObj [
       (''total'', JObj [(''value'', JNum 12000), (''relation'', JStr ''gte'')]),
       (''hits'', JArr [JObj [(''id'', JStr ''a1''), (''score'', JNum (3 / 2)),
                              (''source'', JObj [(''SITE'', JStr ''east'')]),
                              (''highlight'', JObj [])]])])) \<and>
   formatSearchResponse (JObj [(''hits'', JObj [(''max_score'', JNull)])]) =
     Inr (res_json (JObj [
       (''total'', JObj [(''value'', JNum 0), (''relation'', JStr ''eq'')]),
       (''hits'', JArr [])]))"
  using
    formatter_shapes_and_defaults [of "JObj [(''hits'', JObj [
       (''total'', JObj [(''value'', JNum 12000), (''relation'', JStr ''gte'')]),
       (''hits'', JArr [JObj [(''_id'', JStr ''a1''), (''_score'', JNum (3 / 2)),
                              (''_source'', JObj [(''SITE'', JStr ''east'')])]])])]"
       "[JObj [(''_id'', JStr ''a1''), (''_score'', JNum (3 / 2)),
               (''_source'', JObj [(''SITE'', JStr ''east'')])]]"]
    formatter_shapes_and_defaults [of "JObj [(''hits'', JObj [(''max_score'', JNull)])]" "[]"]
  by (simp add: Let_def js_opt_get_def)

text \<open>
  The claim as stated fails. With both shapes present the nested one is used, not the
  unnested one; and with the hits missing altogether the value of the total is not zero:
  \<open>hits.total?.value || hits.total || 0\<close> skips the zero of the default and yields the
  default's \<open>total\<close> object.
\<close>

theorem formatter_shape_order_counterexample:
  "formatSearchResponse (JObj [
      (''body'', JObj [(''hits'', JObj [(''total'', JObj [(''value'', JNum 1), (''relation'', JStr ''eq'')]), (''hits'', JArr [])])]),
      (''hits'', JObj [(''total'', JObj [(''value'', JNum 2), (''relation'', JStr ''gte'')]), (''hits'', JArr [])])]) =
     Inr (res_json (JObj [
       (''total'', JObj [(''value'', JNum 1), (''relation'', JStr ''eq'')]),
       (''hits'', JArr [])])) \<and>
   formatSearchResponse (JObj []) =
     Inr (res_json (JObj [
       (''total'', JObj [(''value'', JObj [(''value'', JNum 0)]), (''relation'', JStr ''eq'')]),
       (''hits'', JArr [])])) \<and>
   JObj [(''value'', JNum 0)] \<noteq> JNum 0"
  by (simp add: Let_def js_opt_get_def js_or_def totalValue_def totalRelation_def defaultHits_def
      formatSearchResponse_def responseHits_def js_get_def mapHits_def)

subsection \<open>Field validation\<close>






subsection \<open>Pagination of the advanced search\<close>

lemma formatAdvancedResponse_status:
  "formatAdvancedResponse response = Inr r \<Longrightarrow> status r = 200"
  by (auto simp: formatAdvancedResponse_def res_json_def split: sum.splits)

lemma advancedSearch_connected:
  "advancedSearch rt ev (Some client) query =
     (case advancedQuery rt query of
        Inl e \<Rightarrow> (res_status_json 500 (JObj [(''error'', JStr ''Advanced search failed''),
                                             (''message'', JStr (err_message e))]), [])
      | Inr qry \<Rightarrow>
          (case client (advancedRequest rt ev query qry) of
             Inl e \<Rightarrow> (res_status_json 500 (JObj [(''error'', JStr ''Advanced search failed''),
                                                  (''message'', JStr (err_message e))]),
                       [advancedRequest rt ev query qry])
           | Inr response \<Rightarrow>
               (case formatAdvancedResponse response of
                  Inl e \<Rightarrow> (res_status_json 500 (JObj [(''error'', JStr ''Advanced search failed''),
                                                       (''message'', JStr (err_message e))]),
                            [advancedRequest rt ev query qry])
                | Inr r \<Rightarrow> (r, [advancedRequest rt ev query qry]))))"
  by (simp add: advancedSearch_def advanced_try_def getClient_def Let_def split: sum.splits)

lemma advancedSearch_status:
  "status (fst (advancedSearch rt ev client query)) = 200 \<or>
   status (fst (advancedSearch rt ev client query)) = 500"
proof (cases client)
  case None
  then show ?thesis
    by (simp add: advancedSearch_def advanced_try_def getClient_def res_status_json_def)
next
  case (Some c)
  then show ?thesis
    by (auto simp: advancedSearch_connected res_status_json_def formatAdvancedResponse_status
        split: sum.splits)
qed

lemma parseInt_empty: "parseInt rt [] = JNaN"
  by (simp add: parseInt_def ascii_def integer_prefix_def)

lemma route_search_rejected:
  assumes "out_of_range rt query ''size'' True \<or> out_of_range rt query ''from'' False"
  shows "snd (route_search rt ev client query) = [] \<and>
         status (fst (route_search rt ev client query)) =
           (case query ''q'' of Some (QArr xs) \<Rightarrow> 500 | _ \<Rightarrow> 400)"
proof (cases "query ''q''")
  case None
  then show ?thesis
    by (simp add: route_search_def validateSearch_def bad_request_def res_status_json_def)
next
  case (Some q)
  show ?thesis
  proof (cases q)
    case (QStr s)
    with Some assms show ?thesis
      by (auto simp: route_search_def validateSearch_def string_method_def bad_request_def
          res_status_json_def)
  next
    case (QArr xs)
    with Some show ?thesis
      by (simp add: route_search_def validateSearch_def string_method_def errorMiddleware_def
          res_status_json_def)
  qed
qed

lemma advancedQuery_single_valued:
  assumes "\<forall>k\<in>set [''q'', ''sites'', ''clusters'', ''usernames'']. \<forall>xs. query k \<noteq> Some (QArr xs)"
  shows "\<exists>qry. advancedQuery rt query = Inr qry"
proof -
  have must_ok: "\<exists>must. textClause rt query = Inr must"
    using assms
    by (auto simp: textClause_def buildMultiFieldQuery_def string_method_def Let_def
        split: option.splits qvalue.splits)
  have filter_ok: "\<exists>fs. termsFilter rt query k fld = Inr fs"
    if "\<forall>xs. query k \<noteq> Some (QArr xs)" for k fld
    using that
    by (auto simp: termsFilter_def string_method_def split: option.splits qvalue.splits)
  obtain must where m: "textClause rt query = Inr must" using must_ok by blast
  obtain fs where s: "termsFilter rt query ''sites'' ''SITE'' = Inr fs"
    using filter_ok [of "''sites''" "''SITE''"] assms by auto
  obtain fc where c: "termsFilter rt query ''clusters'' ''CLUSTERID'' = Inr fc"
    using filter_ok [of "''clusters''" "''CLUSTERID''"] assms by auto
  obtain fu where u: "termsFilter rt query ''usernames'' ''USERNAME'' = Inr fu"
    using filter_ok [of "''usernames''" "''USERNAME''"] assms by auto
  show ?thesis
    by (simp add: advancedQuery_def m s c u Let_def)
qed

text \<open>
  C10. The advanced search route has no validation middleware and \<open>advancedSearch\<close>
  checks no bounds. With a connected client the handler is as follows: when building the
  query throws, the answer is a 500 and no query is issued, and that happens only when
  \<open>q\<close>, \<open>sites\<close>, \<open>clusters\<close> or \<open>usernames\<close> is given more than once; otherwise exactly one
  query is issued, whose \<open>size\<close> and \<open>from\<close> are \<open>parseInt\<close> of the parameters as given (10
  and 0 when absent), whatever their values. The answer is a 200 or a 500 in every case,
  never a client error. The main search route issues no query and answers 400 (500 when
  \<open>q\<close> is given more than once) when \<open>size\<close> parses to a number below 1 or above 100, or
  \<open>from\<close> to a negative number.
\<close>

theorem advanced_no_bounds_validation:
  "advancedSearch rt ev (Some client) query =
     (case advancedQuery rt query of
        Inl e \<Rightarrow> (res_status_json 500 (JObj [(''error'', JStr ''Advanced search failed''),
                                             (''message'', JStr (err_message e))]), [])
      | Inr qry \<Rightarrow>
          (case client (advancedRequest rt ev query qry) of
             Inl e \<Rightarrow> (res_status_json 500 (JObj [(''error'', JStr ''Advanced search failed''),
                                                  (''message'', JStr (err_message e))]),
                       [advancedRequest rt ev query qry])
           | Inr response \<Rightarrow>
               (case formatAdvancedResponse response of
                  Inl e \<Rightarrow> (res_status_json 500 (JObj [(''error'', JStr ''Advanced search failed''),
                                                       (''message'', JStr (err_message e))]),
                            [advancedRequest rt ev query qry])
                | Inr r \<Rightarrow> (r, [advancedRequest rt ev query qry])))) \<and>
   ((\<forall>k\<in>set [''q'', ''sites'', ''clusters'', ''usernames'']. \<forall>xs. query k \<noteq> Some (QArr xs)) \<longrightarrow>
      (\<exists>built. advancedQuery rt query = Inr built)) \<and>
   js_prop (js_prop (advancedRequest rt ev query qry) ''body'') ''size'' =
     (case query ''size'' of None \<Rightarrow> JNum 10 | Some v \<Rightarrow> parseInt rt (qvalue_string v)) \<and>
   js_prop (js_prop (advancedRequest rt ev query qry) ''body'') ''from'' =
     (case query ''from'' of None \<Rightarrow> JNum 0 | Some v \<Rightarrow> parseInt rt (qvalue_string v)) \<and>
   (status (fst (route_advanced rt ev any_client query)) = 200 \<or>
    status (fst (route_advanced rt ev any_client query)) = 500) \<and>
   (query ''size'' = Some (QStr s) \<and> parseInt rt s = JNum n \<and> (n < 1 \<or> 100 < n) \<longrightarrow>
      snd (route_search rt ev any_client query) = [] \<and>
      status (fst (route_search rt ev any_client query)) =
        (case query ''q'' of Some (QArr xs) \<Rightarrow> 500 | _ \<Rightarrow> 400)) \<and>
   (query ''from'' = Some (QStr f) \<and> parseInt rt f = JNum m \<and> m < 0 \<longrightarrow>
      snd (route_search rt ev any_client query) = [] \<and>
      status (fst (route_search rt ev any_client query)) =
        (case query ''q'' of Some (QArr xs) \<Rightarrow> 500 | _ \<Rightarrow> 400))"
proof -
  have size: "js_prop (js_prop (advancedRequest rt ev query qry) ''body'') ''size'' =
     (case query ''size'' of None \<Rightarrow> JNum 10 | Some v \<Rightarrow> parseInt rt (qvalue_string v))"
    by (simp add: advancedRequest_def parseInt_param_def split: option.splits)
  have frm: "js_prop (js_prop (advancedRequest rt ev query qry) ''body'') ''from'' =
     (case query ''from'' of None \<Rightarrow> JNum 0 | Some v \<Rightarrow> parseInt rt (qvalue_string v))"
    by (simp add: advancedRequest_def parseInt_param_def split: option.splits)
  have st: "status (fst (route_advanced rt ev any_client query)) = 200 \<or>
    status (fst (route_advanced rt ev any_client query)) = 500"
    using advancedSearch_status [of rt ev any_client query] by (simp add: route_advanced_def)
  have rs: "out_of_range rt query ''size'' True"
    if "query ''size'' = Some (QStr s)" "parseInt rt s = JNum n" "n < 1 \<or> 100 < n"
  proof -
    have "s \<noteq> []" using that(2) parseInt_empty [of rt] by auto
    with that show ?thesis by (auto simp: out_of_range_def)
  qed
  have rf: "out_of_range rt query ''from'' False"
    if "query ''from'' = Some (QStr f)" "parseInt rt f = JNum m" "m < 0"
  proof -
    have "f \<noteq> []" using that(2) parseInt_empty [of rt] by auto
    with that show ?thesis by (auto simp: out_of_range_def)
  qed
  show ?thesis
    using advancedSearch_connected [of rt ev client query] size frm st
      route_search_rejected [of rt query ev any_client] rs rf
      advancedQuery_single_valued [of query rt]
    by blast
qed

theorem advanced_no_bounds_validation_witness:
  "\<forall>rt.
   js_prop (js_prop (hd (snd (route_advanced rt Map.empty (Some (\<lambda>request. Inr (JObj [])))
       [''sites'' \<mapsto> QStr ''a, b'', ''size'' \<mapsto> QStr ''101'', ''from'' \<mapsto> QStr ''-1'']))) ''body'') ''size'' = JNum 101 \<and>
   js_prop (js_prop (hd (snd (route_advanced rt Map.empty (Some (\<lambda>request. Inr (JObj [])))
       [''sites'' \<mapsto> QStr ''a, b'', ''size'' \<mapsto> QStr ''101'', ''from'' \<mapsto> QStr ''-1'']))) ''body'') ''from'' = JNum (- 1) \<and>
   status (fst (route_advanced rt Map.empty (Some (\<lambda>request. Inr (JObj [])))
       [''sites'' \<mapsto> QStr ''a, b'', ''size'' \<mapsto> QStr ''101'', ''from'' \<mapsto> QStr ''-1''])) = 200 \<and>
   status (fst (route_search rt Map.empty (Some (\<lambda>request. Inr (JObj [])))
       [''q'' \<mapsto> QStr ''east'', ''size'' \<mapsto> QStr ''101'', ''from'' \<mapsto> QStr ''-1''])) = 400 \<and>
   snd (route_search rt Map.empty (Some (\<lambda>request. Inr (JObj [])))
       [''q'' \<mapsto> QStr ''east'', ''size'' \<mapsto> QStr ''101'', ''from'' \<mapsto> QStr ''-1'']) = []"
proof
  fix rt
  let ?adv = "[''sites'' \<mapsto> QStr ''a, b'', ''size'' \<mapsto> QStr ''101'', ''from'' \<mapsto> QStr ''-1'']"
  let ?main = "[''q'' \<mapsto> QStr ''east'', ''size'' \<mapsto> QStr ''101'', ''from'' \<mapsto> QStr ''-1'']"
  let ?client = "\<lambda>request :: jsval. (Inr (JObj []) :: js_error + jsval)"
  have i1: "integer_prefix ''101'' = Some 101" by code_simp
  have i2: "integer_prefix ''-1'' = Some (- 1)" by code_simp
  have p1: "parseInt rt ''101'' = JNum 101" by (simp add: parseInt_def ascii_def negative_zero_def i1)
  have p2: "parseInt rt ''-1'' = JNum (- 1)" by (simp add: parseInt_def ascii_def negative_zero_def i2)
  have s1: "split_on CHR '','' ''a, b'' = [''a'', '' b'']" by simp
  have aq: "\<exists>qry. advancedQuery rt ?adv = Inr qry"
    by (simp add: advancedQuery_def textClause_def termsFilter_def string_method_def)
  then obtain qry where q: "advancedQuery rt ?adv = Inr qry" ..
  have fmt: "formatAdvancedResponse (JObj []) = Inr (res_json (JObj [
      (''total'', JObj [(''value'', JObj [(''value'', JNum 0)]), (''relation'', JStr ''eq'')]),
      (''hits'', JArr []), (''aggregations'', JObj [])]))"
    by (simp add: formatAdvancedResponse_def responseHits_def js_get_def js_opt_get_def js_or_def
        defaultHits_def mapHits_def totalValue_def totalRelation_def)
  from advanced_no_bounds_validation [of rt Map.empty ?client ?adv qry "Some ?client" "''101''" 101 "''-1''" "- 1"]
    advanced_no_bounds_validation [of rt Map.empty ?client ?main qry "Some ?client" "''101''" 101 "''-1''" "- 1"]
  show "js_prop (js_prop (hd (snd (route_advanced rt Map.empty (Some ?client) ?adv))) ''body'') ''size'' = JNum 101 \<and>
   js_prop (js_prop (hd (snd (route_advanced rt Map.empty (Some ?client) ?adv))) ''body'') ''from'' = JNum (- 1) \<and>
   status (fst (route_advanced rt Map.empty (Some ?client) ?adv)) = 200 \<and>
   status (fst (route_search rt Map.empty (Some ?client) ?main)) = 400 \<and>
   snd (route_search rt Map.empty (Some ?client) ?main) = []"
    by (simp add: route_advanced_def q fmt p1 p2 res_json_def)
qed

subsection \<open>Sync status\<close>

text \<open>
  C9. With the record store answering the count \<open>m\<close>, the status probe reports
  \<open>synced = (m = k)\<close> and \<open>difference = m - k\<close>, where \<open>k\<close> is the count answered by the
  index engine, and is zero when the engine's count fails with status 404 (the index does
  not exist yet); any other failure of the engine's count is answered as an error (500)
  carrying the failure's message.
\<close>

theorem sync_status_snapshot:
  assumes "countDocuments coll = Inr m"
  shows
    "(es_count cl (JObj [(''index'', JStr (indexName ev))]) st = Inr r \<longrightarrow>
        status (syncStatus ev now (Some coll) (Some cl) st) = 200 \<and>
        js_prop (js_prop (body (syncStatus ev now (Some coll) (Some cl) st)) ''mongodb'') ''count'' = JNum (of_nat m) \<and>
        js_prop (js_prop (body (syncStatus ev now (Some coll) (Some cl) st)) ''elasticsearch'') ''count'' =
          JNum (of_nat (esCountOf r)) \<and>
        js_prop (body (syncStatus ev now (Some coll) (Some cl) st)) ''synced'' = JBool (m = esCountOf r) \<and>
        js_prop (body (syncStatus ev now (Some coll) (Some cl) st)) ''difference'' =
          JNum (of_int (int m - int (esCountOf r)))) \<and>
     (es_count cl (JObj [(''index'', JStr (indexName ev))]) st = Inl e \<and> err_statusCode e = Some 404 \<longrightarrow>
        status (syncStatus ev now (Some coll) (Some cl) st) = 200 \<and>
        js_prop (js_prop (body (syncStatus ev now (Some coll) (Some cl) st)) ''mongodb'') ''count'' = JNum (of_nat m) \<and>
        js_prop (js_prop (body (syncStatus ev now (Some coll) (Some cl) st)) ''elasticsearch'') ''count'' = JNum 0 \<and>
        js_prop (body (syncStatus ev now (Some coll) (Some cl) st)) ''synced'' = JBool (m = 0) \<and>
        js_prop (body (syncStatus ev now (Some coll) (Some cl) st)) ''difference'' = JNum (of_nat m)) \<and>
     (es_count cl (JObj [(''index'', JStr (indexName ev))]) st = Inl e \<and> err_statusCode e \<noteq> Some 404 \<longrightarrow>
        syncStatus ev now (Some coll) (Some cl) st =
          res_status_json 500 (JObj [(''error'', JStr ''Failed to get sync status''),
                                     (''message'', JStr (err_message e))]))"
  using assms
  by (simp add: syncStatus_def status_try_def getCollection_def getClient_def statusEsCount_def
      res_json_def res_status_json_def)

theorem sync_status_snapshot_witness:
  "syncStatus Map.empty ''2024-01-01T00:00:00.000Z''
      (Some \<lparr>find_all = Inr [], countDocuments = Inr 3\<rparr>)
      (Some (engine (\<lambda>d. True) (\<lambda>v. []))) [(''a'', JObj []), (''b'', JObj [])] =
     res_json (JObj [
       (''mongodb'', JObj [(''count'', JNum 3), (''database'', JStr ''lucene''),
                          (''collection'', JStr ''subnet_details'')]),
       (''elasticsearch'', JObj [(''count'', JNum 2), (''index'', JStr ''subnet_search'')]),
       (''synced'', JBool False),
       (''difference'', JNum 1),
       (''timestamp'', JStr ''2024-01-01T00:00:00.000Z'')]) \<and>
   js_prop (body (syncStatus Map.empty ''t'' (Some \<lparr>find_all = Inr [], countDocuments = Inr 3\<rparr>)
      (Some (recorder\<lparr>es_count := \<lambda>request sent. Inl (JsError ''index_not_found_exception'' (Some 404))\<rparr>)) []))
      ''difference'' = JNum 3 \<and>
   status (syncStatus Map.empty ''t'' (Some \<lparr>find_all = Inr [], countDocuments = Inr 3\<rparr>)
      (Some (recorder\<lparr>es_count := \<lambda>request sent. Inl (JsError ''ConnectionError'' None)\<rparr>)) []) = 500"
  using
    sync_status_snapshot [of "\<lparr>find_all = Inr [], countDocuments = Inr 3\<rparr>" 3
      "engine (\<lambda>d. True) (\<lambda>v. [])" Map.empty "[(''a'', JObj []), (''b'', JObj [])]"
      "\<lparr>body_count = None, top_count = Some 2\<rparr>" "''2024-01-01T00:00:00.000Z''"]
    sync_status_snapshot [of "\<lparr>find_all = Inr [], countDocuments = Inr 3\<rparr>" 3
      "recorder\<lparr>es_count := \<lambda>request sent. Inl (JsError ''index_not_found_exception'' (Some 404))\<rparr>"
      Map.empty "[]" _ "''t''" "JsError ''index_not_found_exception'' (Some 404)"]
    sync_status_snapshot [of "\<lparr>find_all = Inr [], countDocuments = Inr 3\<rparr>" 3
      "recorder\<lparr>es_count := \<lambda>request sent. Inl (JsError ''ConnectionError'' None)\<rparr>"
      Map.empty "[]" _ "''t''" "JsError ''ConnectionError'' None"]
  by (simp add: syncStatus_def status_try_def getCollection_def getClient_def statusEsCount_def
      res_json_def res_status_json_def engine_def model_count_def esCountOf_def indexName_def
      env_or_def recorder_def)

subsection \<open>Change events\<close>

lemma handleChangeEvent_returns:
  "\<exists>logs st'. handleChangeEvent change cl idx st = Inr (logs, st')"
  by (cases "handleChangeEvent_try change cl idx st") (auto simp: handleChangeEvent_def)

text \<open>
  C7. Applying a Delete event never raises: when the engine's delete fails (as it does,
  with a 404, when no document has that identifier) \<open>handleChangeEvent\<close> logs the error
  and returns, with the index unchanged, so that a caller that awaits one event after
  the other goes on to the next event, which is applied to the unchanged index.
\<close>

theorem delete_missing_swallowed:
  assumes "operationType change = ''delete''"
    and "js_get (documentKey change) ''_id'' = Inr i"
  shows
    "(es_delete cl (JObj [(''index'', JStr idx), (''id'', i)]) st = Inl e \<longrightarrow>
        handleChangeEvent change cl idx st = Inr ([LogError ''Error handling change event:'' e], st) \<and>
        (\<exists>logs st'. handleChangeEvent next_change cl idx st = Inr (logs, st') \<and>
           and_then (handleChangeEvent change cl idx st) (handleChangeEvent next_change cl idx) =
             Inr (LogError ''Error handling change event:'' e # logs, st'))) \<and>
     (map_of store (toString_id idstr i) = None \<longrightarrow>
        es_delete (engine accepts idstr) (JObj [(''index'', JStr idx), (''id'', i)]) store =
          Inl (JsError ''Response Error'' (Some 404)))"
proof -
  have a: "handleChangeEvent change cl idx st = Inr ([LogError ''Error handling change event:'' e], st)"
    if "es_delete cl (JObj [(''index'', JStr idx), (''id'', i)]) st = Inl e"
    using assms that by (simp add: handleChangeEvent_def handleChangeEvent_try_def)
  obtain logs st' where n: "handleChangeEvent next_change cl idx st = Inr (logs, st')"
    using handleChangeEvent_returns [of next_change cl idx st] by blast
  have b: "and_then (Inr ([LogError ''Error handling change event:'' e], st)) (handleChangeEvent next_change cl idx) =
             Inr (LogError ''Error handling change event:'' e # logs, st')"
    by (simp add: and_then_def n)
  have c: "es_delete (engine accepts idstr) (JObj [(''index'', JStr idx), (''id'', i)]) store =
          Inl (JsError ''Response Error'' (Some 404))"
    if "map_of store (toString_id idstr i) = None"
    using that by (simp add: engine_def model_delete_def)
  show ?thesis
    using a b c n by auto
qed

theorem delete_missing_swallowed_witness:
  "handleChangeEvent
      \<lparr>operationType = ''delete'', documentKey = JObj [(''_id'', JStr ''z'')], fullDocument = JUndefined\<rparr>
      (engine (\<lambda>d. True) (\<lambda>v. [])) ''subnet_search'' [(''a'', JObj [])] =
     Inr ([LogError ''Error handling change event:'' (JsError ''Response Error'' (Some 404))], [(''a'', JObj [])]) \<and>
   and_then
     (handleChangeEvent
        \<lparr>operationType = ''delete'', documentKey = JObj [(''_id'', JStr ''z'')], fullDocument = JUndefined\<rparr>
        (engine (\<lambda>d. True) (\<lambda>v. [])) ''subnet_search'' [(''a'', JObj [])])
     (handleChangeEvent
        \<lparr>operationType = ''delete'', documentKey = JObj [(''_id'', JStr ''a'')], fullDocument = JUndefined\<rparr>
        (engine (\<lambda>d. True) (\<lambda>v. [])) ''subnet_search'') =
     Inr ([LogError ''Error handling change event:'' (JsError ''Response Error'' (Some 404)),
           LogInfo ''Document deleted from Elasticsearch:'' (JStr ''a'')], [])"
  using delete_missing_swallowed [of
      "\<lparr>operationType = ''delete'', documentKey = JObj [(''_id'', JStr ''z'')], fullDocument = JUndefined\<rparr>"
      "JStr ''z''" "engine (\<lambda>d. True) (\<lambda>v. [])" "''subnet_search''" "[(''a'', JObj [])]"
      "JsError ''Response Error'' (Some 404)"
      "\<lparr>operationType = ''delete'', documentKey = JObj [(''_id'', JStr ''a'')], fullDocument = JUndefined\<rparr>"
      "[(''a'', JObj [])]" "\<lambda>v. []" "\<lambda>d. True"]
  by (simp add: handleChangeEvent_def handleChangeEvent_try_def js_get_def engine_def
      model_delete_def toString_id_def and_then_def AList.delete_eq)

text \<open>
  C6 (as amended). Applying an Update event sends the engine a plain partial-document
  update, \<open>{ index, id, body: { doc: fullDocument } }\<close>, with no upsert option. When no
  index document has that identifier the engine rejects it as document-missing; the
  error is logged and swallowed, the index is left as it was, and no document is created
  under that identifier.
\<close>

theorem update_missing_not_inserted:
  assumes "operationType change = ''update''"
    and "js_get (documentKey change) ''_id'' = Inr i"
  shows
    "handleChangeEvent change recorder idx sent =
       Inr ([LogInfo ''Document updated in Elasticsearch:'' i],
            sent @ [JObj [(''index'', JStr idx), (''id'', i),
                          (''body'', JObj [(''doc'', fullDocument change)])]]) \<and>
     (map_of store (toString_id idstr i) = None \<longrightarrow>
        handleChangeEvent change (engine accepts idstr) idx store =
          Inr ([LogError ''Error handling change event:''
                  (JsError ''document_missing_exception'' (Some 404))], store))"
  using assms
  by (simp add: handleChangeEvent_def handleChangeEvent_try_def recorder_def engine_def
      model_update_def)

theorem update_missing_not_inserted_witness:
  "handleChangeEvent
      \<lparr>operationType = ''update'', documentKey = JObj [(''_id'', JStr ''z'')],
       fullDocument = JObj [(''SITE'', JStr ''s1'')]\<rparr>
      (engine (\<lambda>d. True) (\<lambda>v. [])) ''subnet_search'' [(''a'', JObj [])] =
     Inr ([LogError ''Error handling change event:'' (JsError ''document_missing_exception'' (Some 404))],
          [(''a'', JObj [])])"
  using update_missing_not_inserted [of
      "\<lparr>operationType = ''update'', documentKey = JObj [(''_id'', JStr ''z'')],
        fullDocument = JObj [(''SITE'', JStr ''s1'')]\<rparr>"
      "JStr ''z''" "''subnet_search''" "[]" "[(''a'', JObj [])]" "\<lambda>v. []" "\<lambda>d. True"]
  by (simp add: js_get_def toString_id_def)

text \<open>
  The claim as stated fails: after an Update event on an empty index, the index is still
  empty.
\<close>

theorem update_missing_counterexample:
  "handleChangeEvent
      \<lparr>operationType = ''update'', documentKey = JObj [(''_id'', JStr ''z'')],
       fullDocument = JObj [(''SITE'', JStr ''s1'')]\<rparr>
      (engine (\<lambda>d. True) (\<lambda>v. [])) ''subnet_search'' [] =
     Inr ([LogError ''Error handling change event:'' (JsError ''document_missing_exception'' (Some 404))], []) \<and>
   map_of ([] :: es_store) ''z'' = None"
  by (simp add: handleChangeEvent_def handleChangeEvent_try_def js_get_def engine_def
      model_update_def toString_id_def)

subsection \<open>Partial failure of a bulk sync\<close>

lemma traverse_routeBulkLines:
  "\<forall>d\<in>set docs. \<not> js_nullish (js_prop (JObj d) ''_id'') \<Longrightarrow>
   traverse (routeBulkLines idstr idx) docs =
     Inr (map (\<lambda>d. [docAction idstr idx d, docSource d]) docs)"
  by (induction docs)
     (simp_all add: routeBulkLines_def docAction_def docSource_def docKey_def Let_def)

lemma routeBulkBody_lines:
  "\<forall>d\<in>set docs. \<not> js_nullish (js_prop (JObj d) ''_id'') \<Longrightarrow>
   routeBulkBody idstr idx docs =
     Inr (concat (map (\<lambda>d. [docAction idstr idx d, docSource d]) docs))"
  by (simp add: routeBulkBody_def traverse_routeBulkLines)

lemma action_key:
  "toString_id idstr (js_prop (js_prop (docAction idstr idx d) ''index'') ''_id'') = docKey idstr d"
  by (simp add: docAction_def toString_id_def)

lemma itemFailed_failedItem: "itemFailed (failedItem i) = Inr True"
  by (simp add: itemFailed_def failedItem_def js_get_def js_and_def)

lemma itemFailed_created:
  "itemFailed (JObj [(''index'', JObj [(''_id'', JStr i), (''status'', JNum n)])]) = Inr False"
  by (simp add: itemFailed_def js_get_def js_and_def)

lemma model_bulk_items_docs:
  "model_bulk_items accepts idstr (concat (map (\<lambda>d. [docAction idstr idx d, docSource d]) docs)) st =
     (items, st') \<Longrightarrow>
   st' = fold (indexAccepted accepts idstr) docs st \<and>
   filterItems items =
     Inr (map (\<lambda>d. failedItem (docKey idstr d)) (filter (\<lambda>d. \<not> accepts (docSource d)) docs)) \<and>
   list_ex (\<lambda>it. js_truthy (js_prop (js_prop it ''index'') ''error'')) items =
     (\<exists>d\<in>set docs. \<not> accepts (docSource d))"
proof (induction docs arbitrary: st items st')
  case Nil
  then show ?case by auto
next
  case (Cons d docs)
  let ?rest = "concat (map (\<lambda>d. [docAction idstr idx d, docSource d]) docs)"
  show ?case
  proof (cases "accepts (docSource d)")
    case True
    obtain items0 st0 where r: "model_bulk_items accepts idstr ?rest
        (AList.update (docKey idstr d) (docSource d) st) = (items0, st0)"
      by (cases "model_bulk_items accepts idstr ?rest (AList.update (docKey idstr d) (docSource d) st)")
    from Cons.prems True r
    have eq: "items = JObj [(''index'', JObj [(''_id'', JStr (docKey idstr d)),
                 (''status'', JNum (if map_of st (docKey idstr d) = None then 201 else 200))])] # items0"
      and st: "st' = st0"
      by (simp_all add: action_key Let_def)
    from Cons.IH [OF r] True show ?thesis
      by (simp add: eq st indexAccepted_def itemFailed_created)
  next
    case False
    obtain items0 st0 where r: "model_bulk_items accepts idstr ?rest st = (items0, st0)"
      by (cases "model_bulk_items accepts idstr ?rest st")
    from Cons.prems False r
    have eq: "items = failedItem (docKey idstr d) # items0" and st: "st' = st0"
      by (simp_all add: action_key Let_def failedItem_def)
    from Cons.IH [OF r] False show ?thesis
      by (simp add: eq st indexAccepted_def itemFailed_failedItem) (simp add: failedItem_def)
  qed
qed

lemma fold_indexAccepted_other:
  "k \<notin> docKey idstr ` set docs \<Longrightarrow>
   map_of (fold (indexAccepted accepts idstr) docs st) k = map_of st k"
  by (induction docs arbitrary: st) (auto simp: indexAccepted_def update_conv')

lemma fold_indexAccepted_accepted:
  "distinct (map (docKey idstr) docs) \<Longrightarrow> d \<in> set docs \<Longrightarrow> accepts (docSource d) \<Longrightarrow>
   map_of (fold (indexAccepted accepts idstr) docs st) (docKey idstr d) = Some (docSource d)"
proof (induction docs arbitrary: st)
  case Nil
  then show ?case by simp
next
  case (Cons a docs)
  show ?case
  proof (cases "d = a")
    case True
    with Cons.prems have "docKey idstr a \<notin> docKey idstr ` set docs" by simp
    then have "map_of (fold (indexAccepted accepts idstr) docs (indexAccepted accepts idstr a st)) (docKey idstr a) =
               map_of (indexAccepted accepts idstr a st) (docKey idstr a)"
      by (rule fold_indexAccepted_other)
    moreover have "indexAccepted accepts idstr a st = AList.update (docKey idstr a) (docSource a) st"
      using True Cons.prems(3) by (simp add: indexAccepted_def)
    ultimately show ?thesis
      using True by (simp add: update_conv')
  next
    case False
    with Cons.prems have "d \<in> set docs" and "distinct (map (docKey idstr) docs)" by simp_all
    with Cons.IH Cons.prems(3) show ?thesis by simp
  qed
qed

lemma fold_indexAccepted_rejected:
  "distinct (map (docKey idstr) docs) \<Longrightarrow> d \<in> set docs \<Longrightarrow> \<not> accepts (docSource d) \<Longrightarrow>
   map_of (fold (indexAccepted accepts idstr) docs st) (docKey idstr d) = map_of st (docKey idstr d)"
proof (induction docs arbitrary: st)
  case Nil
  then show ?case by simp
next
  case (Cons a docs)
  show ?case
  proof (cases "d = a")
    case True
    with Cons.prems have "docKey idstr a \<notin> docKey idstr ` set docs" by simp
    then have "map_of (fold (indexAccepted accepts idstr) docs (indexAccepted accepts idstr a st)) (docKey idstr a) =
               map_of (indexAccepted accepts idstr a st) (docKey idstr a)"
      by (rule fold_indexAccepted_other)
    moreover have "indexAccepted accepts idstr a st = st"
      using True Cons.prems(3) by (simp add: indexAccepted_def)
    ultimately show ?thesis
      using True by simp
  next
    case False
    with Cons.prems have d: "d \<in> set docs" and dist: "distinct (map (docKey idstr) docs)"
      and fresh: "docKey idstr a \<notin> docKey idstr ` set docs" by simp_all
    from d fresh have ne: "docKey idstr d \<noteq> docKey idstr a" by (metis imageI)
    have "map_of (fold (indexAccepted accepts idstr) docs (indexAccepted accepts idstr a st)) (docKey idstr d) =
          map_of (indexAccepted accepts idstr a st) (docKey idstr d)"
      using Cons.IH [OF dist d Cons.prems(3)] .
    also have "\<dots> = map_of st (docKey idstr d)"
      using ne by (simp add: indexAccepted_def update_conv')
    finally show ?thesis by simp
  qed
qed

text \<open>
  C1 (as amended). When the bulk route sends a batch of records with distinct identifiers
  and the engine refuses at least one of them, the route answers with status 500 and
  \<open>success = false\<close>, yet not as a total failure: the answer carries \<open>documentsProcessed\<close>
  equal to the number of records read and, under \<open>errors\<close>, one item for each refused record
  and for no other (a non-empty list); every record the engine accepted is indexed under
  its identifier, and the index entries of the refused records are as they were.
\<close>

theorem partial_batch_reported:
  assumes ids: "\<forall>d\<in>set docs. \<not> js_nullish (js_prop (JObj d) ''_id'')"
    and dist: "distinct (map (docKey idstr) docs)"
    and some_fail: "\<exists>d\<in>set docs. \<not> accepts (docSource d)"
    and coll: "find_all coll = Inr docs"
  shows "\<exists>res st'.
     syncBulk ev idstr now (Some coll) (Some (engine accepts idstr)) st = (res, st') \<and>
     status res = 500 \<and>
     js_prop (body res) ''success'' = JBool False \<and>
     js_prop (body res) ''documentsProcessed'' = JNum (of_nat (length docs)) \<and>
     js_prop (body res) ''errors'' =
       JArr (map (\<lambda>d. failedItem (docKey idstr d)) (filter (\<lambda>d. \<not> accepts (docSource d)) docs)) \<and>
     filter (\<lambda>d. \<not> accepts (docSource d)) docs \<noteq> [] \<and>
     (\<forall>d\<in>set docs. accepts (docSource d) \<longrightarrow> map_of st' (docKey idstr d) = Some (docSource d)) \<and>
     (\<forall>d\<in>set docs. \<not> accepts (docSource d) \<longrightarrow> map_of st' (docKey idstr d) = map_of st (docKey idstr d))"
proof -
  let ?lines = "concat (map (\<lambda>d. [docAction idstr (indexName ev) d, docSource d]) docs)"
  obtain items st' where mb: "model_bulk_items accepts idstr ?lines st = (items, st')"
    by (cases "model_bulk_items accepts idstr ?lines st")
  note facts = model_bulk_items_docs [OF mb]
  from some_fail have ne: "docs \<noteq> []" by auto
  have errs: "list_ex (\<lambda>it. js_truthy (js_prop (js_prop it ''index'') ''error'')) items"
    using facts some_fail by simp
  have fi: "failedItems (JObj [(''errors'', JBool True), (''items'', JArr items)]) =
      Inr (JArr (map (\<lambda>d. failedItem (docKey idstr d)) (filter (\<lambda>d. \<not> accepts (docSource d)) docs)))"
    using facts by (simp add: failedItems_def)
  have run: "syncBulk ev idstr now (Some coll) (Some (engine accepts idstr)) st =
      (res_status_json 500 (JObj [
         (''success'', JBool False),
         (''error'', JStr ''Bulk sync completed with errors''),
         (''documentsProcessed'', JNum (of_nat (length docs))),
         (''errors'', JArr (map (\<lambda>d. failedItem (docKey idstr d)) (filter (\<lambda>d. \<not> accepts (docSource d)) docs)))]),
       st')"
    using ne coll errs fi
    by (simp add: syncBulk_def bulk_try_def getCollection_def getClient_def
        routeBulkBody_lines [OF ids] engine_def model_bulk_def mb js_get_def)
  have st': "st' = fold (indexAccepted accepts idstr) docs st"
    using facts by simp
  have kept: "\<forall>d\<in>set docs. accepts (docSource d) \<longrightarrow> map_of st' (docKey idstr d) = Some (docSource d)"
    using dist by (simp add: st' fold_indexAccepted_accepted)
  have untouched: "\<forall>d\<in>set docs. \<not> accepts (docSource d) \<longrightarrow> map_of st' (docKey idstr d) = map_of st (docKey idstr d)"
    using dist by (simp add: st' fold_indexAccepted_rejected)
  have nonempty: "filter (\<lambda>d. \<not> accepts (docSource d)) docs \<noteq> []"
    using some_fail by (simp add: filter_empty_conv)
  show ?thesis
    using run kept untouched nonempty by (simp add: res_status_json_def)
qed

theorem partial_batch_reported_witness:
  "syncBulk Map.empty (\<lambda>v. []) ''2024-01-01T00:00:00.000Z''
     (Some \<lparr>find_all = Inr [[(''_id'', JStr ''a''), (''IP'', JStr ''10.0.0.1'')],
                            [(''_id'', JStr ''b''), (''IP'', JStr ''bad'')],
                            [(''_id'', JStr ''c''), (''IP'', JStr ''10.0.0.3'')]],
            countDocuments = Inr 3\<rparr>)
     (Some (engine (\<lambda>v. js_prop v ''IP'' \<noteq> JStr ''bad'') (\<lambda>v. []))) [] =
   (res_status_json 500 (JObj [
      (''success'', JBool False),
      (''error'', JStr ''Bulk sync completed with errors''),
      (''documentsProcessed'', JNum 3),
      (''errors'', JArr [failedItem ''b''])]),
    [(''a'', JObj [(''IP'', JStr ''10.0.0.1'')]), (''c'', JObj [(''IP'', JStr ''10.0.0.3'')])])"
proof -
  let ?docs = "[[(''_id'', JStr ''a''), (''IP'', JStr ''10.0.0.1'')],
                [(''_id'', JStr ''b''), (''IP'', JStr ''bad'')],
                [(''_id'', JStr ''c''), (''IP'', JStr ''10.0.0.3'')]]"
  have ids: "\<forall>d\<in>set ?docs. \<not> js_nullish (js_prop (JObj d) ''_id'')" by simp
  have dist: "distinct (map (docKey (\<lambda>v. [])) ?docs)" by (simp add: docKey_def toString_id_def)
  have some_fail: "\<exists>d\<in>set ?docs. \<not> (\<lambda>v. js_prop v ''IP'' \<noteq> JStr ''bad'') (docSource d)"
    by (simp add: docSource_def AList.delete_eq)
  have coll: "find_all \<lparr>find_all = Inr ?docs, countDocuments = Inr 3\<rparr> = Inr ?docs" by simp
  from partial_batch_reported [OF ids dist some_fail coll, of Map.empty "''2024-01-01T00:00:00.000Z''" "[]"]
  show ?thesis
    by (simp add: syncBulk_def bulk_try_def getCollection_def getClient_def routeBulkBody_def
        routeBulkLines_def toString_id_def engine_def model_bulk_def js_get_def failedItems_def
        itemFailed_def js_and_def failedItem_def AList.delete_eq indexName_def env_or_def Let_def)
qed

text \<open>
  The claim as stated fails: a batch of two records of which one is refused is answered
  with status 500 and \<open>success = false\<close>.
\<close>

theorem partial_batch_success_counterexample:
  "status (fst (syncBulk Map.empty (\<lambda>v. []) ''2024-01-01T00:00:00.000Z''
     (Some \<lparr>find_all = Inr [[(''_id'', JStr ''a''), (''IP'', JStr ''10.0.0.1'')],
                            [(''_id'', JStr ''b''), (''IP'', JStr ''bad'')]],
            countDocuments = Inr 2\<rparr>)
     (Some (engine (\<lambda>v. js_prop v ''IP'' \<noteq> JStr ''bad'') (\<lambda>v. []))) [])) = 500 \<and>
   js_prop (body (fst (syncBulk Map.empty (\<lambda>v. []) ''2024-01-01T00:00:00.000Z''
     (Some \<lparr>find_all = Inr [[(''_id'', JStr ''a''), (''IP'', JStr ''10.0.0.1'')],
                            [(''_id'', JStr ''b''), (''IP'', JStr ''bad'')]],
            countDocuments = Inr 2\<rparr>)
     (Some (engine (\<lambda>v. js_prop v ''IP'' \<noteq> JStr ''bad'') (\<lambda>v. []))) []))) ''success'' = JBool False"
  by (simp add: syncBulk_def bulk_try_def getCollection_def getClient_def routeBulkBody_def
      routeBulkLines_def toString_id_def engine_def model_bulk_def js_get_def failedItems_def
      itemFailed_def js_and_def AList.delete_eq indexName_def env_or_def res_status_json_def Let_def)

subsection \<open>The bodies the sync paths submit\<close>

text \<open>
  C2 (as amended). For every record and every batch of records, the per-event path submits
  the full document of the event as it is (as the body on insert, as the partial document
  \<open>doc\<close> on update), the bulk function of the sync service submits each record of the batch
  as it is, and the bulk route submits each record without its \<open>_id\<close>. The bodies agree on
  every field other than \<open>_id\<close>, and none of them attaches a derived \<open>suggest\<close> field:
  that field is attached by \<open>transformForElasticsearch\<close> of the batch script only, which
  leaves every other field of the record as it is.
\<close>

theorem projection_paths:
  assumes ids: "\<forall>d\<in>set docs. \<not> js_nullish (js_prop (JObj d) ''_id'')"
    and coll: "find_all coll = Inr docs"
    and key: "js_get (documentKey change) ''_id'' = Inr i"
  shows
    "(operationType change = ''insert'' \<longrightarrow>
        handleChangeEvent change recorder idx sent =
          Inr ([LogInfo ''Document inserted in Elasticsearch:'' i],
               sent @ [JObj [(''index'', JStr idx), (''id'', i), (''body'', fullDocument change)]])) \<and>
     (operationType change = ''update'' \<longrightarrow>
        handleChangeEvent change recorder idx sent =
          Inr ([LogInfo ''Document updated in Elasticsearch:'' i],
               sent @ [JObj [(''index'', JStr idx), (''id'', i),
                             (''body'', JObj [(''doc'', fullDocument change)])]])) \<and>
     snd (snd (bulkSyncToElasticsearch ev (Some coll) (Some recorder) [])) =
       (if docs = [] then []
        else [JObj [(''refresh'', JBool True),
                    (''body'', JArr (concat (map (\<lambda>d.
                       [JObj [(''index'', JObj [(''_index'', JStr (indexName ev)),
                                               (''_id'', js_prop (JObj d) ''_id'')])],
                        JObj d]) docs)))]]) \<and>
     snd (syncBulk ev idstr now (Some coll) (Some recorder) []) =
       (if docs = [] then []
        else [JObj [(''refresh'', JBool True),
                    (''body'', JArr (concat (map (\<lambda>d.
                       [docAction idstr (indexName ev) d, docSource d]) docs)))]]) \<and>
     (\<forall>d k. k \<noteq> ''_id'' \<longrightarrow> js_prop (docSource d) k = js_prop (JObj d) k) \<and>
     (\<forall>d. js_prop (docSource d) ''_id'' = JUndefined) \<and>
     (\<forall>d k. k \<noteq> ''suggest'' \<longrightarrow> js_prop (JObj (transformForElasticsearch d)) k = js_prop (JObj d) k) \<and>
     (\<forall>d. js_nullish (js_prop (JObj (transformForElasticsearch d)) ''suggest'') = False)"
proof -
  have ins: "operationType change = ''insert'' \<Longrightarrow>
        handleChangeEvent change recorder idx sent =
          Inr ([LogInfo ''Document inserted in Elasticsearch:'' i],
               sent @ [JObj [(''index'', JStr idx), (''id'', i), (''body'', fullDocument change)]])"
    using key by (simp add: handleChangeEvent_def handleChangeEvent_try_def recorder_def)
  have upd: "operationType change = ''update'' \<Longrightarrow>
        handleChangeEvent change recorder idx sent =
          Inr ([LogInfo ''Document updated in Elasticsearch:'' i],
               sent @ [JObj [(''index'', JStr idx), (''id'', i),
                             (''body'', JObj [(''doc'', fullDocument change)])]])"
    using key by (simp add: handleChangeEvent_def handleChangeEvent_try_def recorder_def)
  have svc: "snd (snd (bulkSyncToElasticsearch ev (Some coll) (Some recorder) [])) =
       (if docs = [] then []
        else [JObj [(''refresh'', JBool True),
                    (''body'', JArr (concat (map (\<lambda>d.
                       [JObj [(''index'', JObj [(''_index'', JStr (indexName ev)),
                                               (''_id'', js_prop (JObj d) ''_id'')])],
                        JObj d]) docs)))]])"
    using coll
    by (simp add: bulkSyncToElasticsearch_def bulkSync_try_def getCollection_def getClient_def
        bulkBody_def recorder_def js_get_def Let_def)
  have route: "snd (syncBulk ev idstr now (Some coll) (Some recorder) []) =
       (if docs = [] then []
        else [JObj [(''refresh'', JBool True),
                    (''body'', JArr (concat (map (\<lambda>d.
                       [docAction idstr (indexName ev) d, docSource d]) docs)))]])"
    using coll
    by (simp add: syncBulk_def bulk_try_def getCollection_def getClient_def
        routeBulkBody_lines [OF ids] recorder_def js_get_def)
  have same: "k \<noteq> ''_id'' \<Longrightarrow> js_prop (docSource d) k = js_prop (JObj d) k" for k d
    by (simp add: docSource_def)
  have noid: "js_prop (docSource d) ''_id'' = JUndefined" for d
    by (simp add: docSource_def delete_conv')
  have keep: "k \<noteq> ''suggest'' \<Longrightarrow> js_prop (JObj (transformForElasticsearch d)) k = js_prop (JObj d) k" for k d
    by (simp add: transformForElasticsearch_def Let_def update_conv')
  have sug: "js_nullish (js_prop (JObj (transformForElasticsearch d)) ''suggest'') = False" for d
    by (simp add: transformForElasticsearch_def Let_def update_conv')
  show ?thesis
    using ins upd svc route same noid keep sug by blast
qed

theorem projection_paths_witness:
  "handleChangeEvent
      \<lparr>operationType = ''update'', documentKey = JObj [(''_id'', JStr ''1'')],
       fullDocument = JObj [(''_id'', JStr ''1''), (''CLUSTERID'', JStr ''c1'')]\<rparr>
      recorder ''subnet_search'' [] =
     Inr ([LogInfo ''Document updated in Elasticsearch:'' (JStr ''1'')],
          [JObj [(''index'', JStr ''subnet_search''), (''id'', JStr ''1''),
                 (''body'', JObj [(''doc'', JObj [(''_id'', JStr ''1''), (''CLUSTERID'', JStr ''c1'')])])]]) \<and>
   snd (snd (bulkSyncToElasticsearch Map.empty
       (Some \<lparr>find_all = Inr [[(''_id'', JStr ''1''), (''CLUSTERID'', JStr ''c1'')],
                              [(''_id'', JStr ''2''), (''SITE'', JStr ''s2'')]], countDocuments = Inr 2\<rparr>)
       (Some recorder) [])) =
     [JObj [(''refresh'', JBool True),
            (''body'', JArr [JObj [(''index'', JObj [(''_index'', JStr ''subnet_search''), (''_id'', JStr ''1'')])],
                             JObj [(''_id'', JStr ''1''), (''CLUSTERID'', JStr ''c1'')],
                             JObj [(''index'', JObj [(''_index'', JStr ''subnet_search''), (''_id'', JStr ''2'')])],
                             JObj [(''_id'', JStr ''2''), (''SITE'', JStr ''s2'')]])]] \<and>
   snd (syncBulk Map.empty (\<lambda>v. []) ''2024-01-01T00:00:00.000Z''
       (Some \<lparr>find_all = Inr [[(''_id'', JStr ''1''), (''CLUSTERID'', JStr ''c1'')],
                              [(''_id'', JStr ''2''), (''SITE'', JStr ''s2'')]], countDocuments = Inr 2\<rparr>)
       (Some recorder) []) =
     [JObj [(''refresh'', JBool True),
            (''body'', JArr [JObj [(''index'', JObj [(''_index'', JStr ''subnet_search''), (''_id'', JStr ''1'')])],
                             JObj [(''CLUSTERID'', JStr ''c1'')],
                             JObj [(''index'', JObj [(''_index'', JStr ''subnet_search''), (''_id'', JStr ''2'')])],
                             JObj [(''SITE'', JStr ''s2'')]])]]"
proof -
  let ?docs = "[[(''_id'', JStr ''1''), (''CLUSTERID'', JStr ''c1'')],
                [(''_id'', JStr ''2''), (''SITE'', JStr ''s2'')]]"
  let ?change = "\<lparr>operationType = ''update'', documentKey = JObj [(''_id'', JStr ''1'')],
       fullDocument = JObj [(''_id'', JStr ''1''), (''CLUSTERID'', JStr ''c1'')]\<rparr>"
  have ids: "\<forall>d\<in>set ?docs. \<not> js_nullish (js_prop (JObj d) ''_id'')" by simp
  have coll: "find_all \<lparr>find_all = Inr ?docs, countDocuments = Inr 2\<rparr> = Inr ?docs" by simp
  have key: "js_get (documentKey ?change) ''_id'' = Inr (JStr ''1'')" by (simp add: js_get_def)
  from projection_paths [OF ids coll key, of "''subnet_search''" "[]" Map.empty "\<lambda>v. []" "''2024-01-01T00:00:00.000Z''"]
  show ?thesis
    by (simp add: indexName_def env_or_def docAction_def docKey_def docSource_def toString_id_def
        AList.delete_eq)
qed

text \<open>
  The claim as stated fails: for a record with an \<open>_id\<close> the body of the per-event path
  and the body of the bulk route differ, and neither holds a \<open>suggest\<close> field, which the
  script's projection would attach.
\<close>

theorem projection_paths_differ_counterexample:
  "handleChangeEvent
      \<lparr>operationType = ''insert'', documentKey = JObj [(''_id'', JStr ''1'')],
       fullDocument = JObj [(''_id'', JStr ''1''), (''CLUSTERID'', JStr ''c1'')]\<rparr>
      recorder ''subnet_search'' [] =
     Inr ([LogInfo ''Document inserted in Elasticsearch:'' (JStr ''1'')],
          [JObj [(''index'', JStr ''subnet_search''), (''id'', JStr ''1''),
                 (''body'', JObj [(''_id'', JStr ''1''), (''CLUSTERID'', JStr ''c1'')])]]) \<and>
   snd (syncBulk Map.empty (\<lambda>v. []) ''2024-01-01T00:00:00.000Z''
       (Some \<lparr>find_all = Inr [[(''_id'', JStr ''1''), (''CLUSTERID'', JStr ''c1'')]], countDocuments = Inr 1\<rparr>)
       (Some recorder) []) =
     [JObj [(''refresh'', JBool True),
            (''body'', JArr [JObj [(''index'', JObj [(''_index'', JStr ''subnet_search''), (''_id'', JStr ''1'')])],
                             JObj [(''CLUSTERID'', JStr ''c1'')]])]] \<and>
   JObj [(''_id'', JStr ''1''), (''CLUSTERID'', JStr ''c1'')] \<noteq> JObj [(''CLUSTERID'', JStr ''c1'')] \<and>
   js_prop (JObj [(''_id'', JStr ''1''), (''CLUSTERID'', JStr ''c1'')]) ''suggest'' = JUndefined \<and>
   transformForElasticsearch [(''_id'', JStr ''1''), (''CLUSTERID'', JStr ''c1'')] =
     [(''_id'', JStr ''1''), (''CLUSTERID'', JStr ''c1''),
      (''suggest'', JObj [(''input'', JArr [JStr ''c1'']),
                          (''contexts'', JObj [(''category'', JArr [JStr ''subnet'', JStr ''network''])])])]"
  by (simp add: handleChangeEvent_def handleChangeEvent_try_def js_get_def recorder_def
      syncBulk_def bulk_try_def getCollection_def getClient_def routeBulkBody_def
      routeBulkLines_def toString_id_def AList.delete_eq indexName_def env_or_def
      transformForElasticsearch_def Let_def)

end
